theory Spec2Isabelle
  imports Complex_Main
begin

section \<open>Values exchanged with the outside world\<close>

text \<open>
  The three components (\<^verbatim>\<open>FileUploader.tsx\<close>, its older variant \<^verbatim>\<open>part_000\<close> and
  \<^verbatim>\<open>PostForm.tsx\<close>) are glue code around opaque services: file storage, a document
  database, an image-classification endpoint and a text-moderation endpoint. The embedding
  keeps the handlers' control flow as it is written and makes their effects explicit:
  every handler returns the chronological list of the effects it performed (requests sent,
  console output, toasts, navigation, component state updates), and a handler that can
  reject returns a sum whose left injection is the thrown value.
\<close>

type_synonym File = string

text \<open>A thrown JavaScript value: an \<^verbatim>\<open>Error\<close> instance with its message, or anything else.\<close>

datatype js_error = Error (message: string) | NonError

text \<open>\<^verbatim>\<open>import.meta.env\<close>.\<close>

record config =
  VITE_APPWRITE_PROJECT_ID :: string
  VITE_APPWRITE_URL :: string
  VITE_APPWRITE_DATABASE_ID :: string
  VITE_APPWRITE_USER_COLLECTION_ID :: string
  VITE_APPWRITE_POST_COLLECTION_ID :: string
  VITE_APPWRITE_STORAGE_ID :: string
  VITE_APPWRITE_DB_ID :: string
  VITE_SIGHTENGINE_USER :: string
  VITE_SIGHTENGINE_SECRET :: string

text \<open>
  One entry of the inference response's \<^verbatim>\<open>predictions\<close>. A JavaScript number is read as
  the real it denotes, and the product \<^verbatim>\<open>confidence * 100\<close> is taken exactly; \<open>None\<close> is a
  confidence that is absent or not a number (the product is then \<^verbatim>\<open>NaN\<close>, and every
  comparison with \<^verbatim>\<open>NaN\<close> is false).
\<close>

record prediction =
  confidence :: "real option"

text \<open>\<^verbatim>\<open>response.data\<close> of the inference call; \<open>None\<close> is an absent \<^verbatim>\<open>predictions\<close>.\<close>

record ml_data =
  predictions :: "prediction list option"

text \<open>\<^verbatim>\<open>interface Match\<close>: fields \<^verbatim>\<open>type\<close>, \<^verbatim>\<open>match\<close>, \<^verbatim>\<open>start\<close>, \<^verbatim>\<open>end\<close>.\<close>

record Match =
  match_type :: string
  match_match :: string
  match_start :: nat
  match_end :: nat

text \<open>
  \<^verbatim>\<open>interface FlaggedResponse\<close>, as the body of the moderation response. The body is
  untyped at run time: \<open>None\<close> is a body without \<^verbatim>\<open>drug.matches\<close>, on which
  \<^verbatim>\<open>drug.matches.some\<close> raises a \<^verbatim>\<open>TypeError\<close>.
\<close>

record FlaggedResponse =
  status :: string
  drug_matches :: "Match list option"

text \<open>\<^verbatim>\<open>Models.Document\<close>: the \<^verbatim>\<open>$id\<close> every document and stored file carries.\<close>

record document =
  dollar_id :: string

text \<open>The post document handed to the form, with the two fields the handler reads.\<close>

record post_document = document +
  post_imageId :: string
  post_imageUrl :: string

text \<open>The object literal \<^verbatim>\<open>onDrop\<close> passes to \<^verbatim>\<open>createDocument\<close>.\<close>

record image_data =
  imageId :: string
  imageUrl :: string
  flag :: bool
  creator :: string
  image_caption :: string
  likes :: "string list"
  image_tags :: "string list"

text \<open>The validated form values, and the two payloads built from them by spreading.\<close>

record post_values =
  caption :: string
  files :: "File list"
  location :: string
  tags :: string

record IUpdatePost = post_values +
  postId :: string
  upd_imageId :: string
  upd_imageUrl :: string

record INewPost = post_values +
  userId :: string
  new_imageId :: "string option"

record IUser =
  user_dollar_id :: string
  user_id :: string
  user_flag :: bool

datatype action = Create | Update

section \<open>Effects\<close>

text \<open>
  A request to an external service, with the arguments the code passes. Every patch the
  code sends to \<^verbatim>\<open>updateDocument\<close> is \<^verbatim>\<open>{ flag: b }\<close>, and every query it sends to
  \<^verbatim>\<open>listDocuments\<close> is \<^verbatim>\<open>[Query.equal('flag', b)]\<close>; both are represented by \<open>b\<close>.
\<close>

datatype request =
    StorageCreateFile string string "File option"
  | DbCreateDocument string string string image_data
  | DbUpdateDocument string string string bool
  | DbListDocuments string string bool
  | MlPost string string string
  | TextCheck string "(string \<times> string) list"
  | CreatePost INewPost
  | UpdatePost IUpdatePost

datatype effect =
    Call request
  | Rejected js_error
  | ConsoleError string js_error
  | ConsoleErrorMessage string string
  | Toast string "string option"
  | Navigate string
  | SetFile "File list"
  | FieldChange "File list"
  | SetFileUrl string

text \<open>
  \<open>Call r\<close> is the request \<open>r\<close> being sent; \<open>Rejected e\<close> follows the request whose awaited
  promise rejects with \<open>e\<close>. The other effects are \<^verbatim>\<open>console.error\<close> with a label and the
  thrown value, \<^verbatim>\<open>console.error\<close> with a label and a message, \<^verbatim>\<open>toast\<close> with a title and
  a description, \<^verbatim>\<open>navigate\<close>, and the component's \<^verbatim>\<open>setFile\<close>, \<^verbatim>\<open>fieldChange\<close> and
  \<^verbatim>\<open>setFileUrl\<close>.
\<close>

text \<open>
  What the outside world answers during one run of a handler, one entry per call site.
  The services are not under the program's control, so nothing relates an answer to the
  request: a theorem about all \<open>replies\<close> covers every behaviour of the services.
  \<open>Inl\<close> is a call that throws (a rejected promise). \<open>convertFileToUrl\<close> is the helper of
  \<^verbatim>\<open>@/lib/utils\<close>, \<open>createPost\<close> and \<open>updatePost\<close> are the mutations of
  \<^verbatim>\<open>@/lib/react-query/queries\<close>; \<open>ID_unique_file\<close> and \<open>ID_unique_document\<close> are the
  values of the two \<^verbatim>\<open>ID.unique()\<close> calls.
\<close>

record replies =
  convertFileToUrl :: "File option \<Rightarrow> js_error + string"
  ID_unique_file :: string
  ID_unique_document :: string
  storage_createFile :: "js_error + document"
  databases_createDocument :: "js_error + document"
  axios_post_ml :: "js_error + ml_data"
  update_user_document :: "js_error + unit"
  update_image_document :: "js_error + unit"
  list_user_documents :: "js_error + document list"
  list_image_documents :: "js_error + document list"
  axios_post_text :: "js_error + FlaggedResponse"
  createPost :: "js_error + post_document option"
  updatePost :: "js_error + post_document option"

section \<open>Shared pieces\<close>

abbreviation APPWRITE_PROJECT_ID :: "config \<Rightarrow> string" where
  "APPWRITE_PROJECT_ID \<equiv> VITE_APPWRITE_PROJECT_ID"

abbreviation APPWRITE_ENDPOINT :: "config \<Rightarrow> string" where
  "APPWRITE_ENDPOINT \<equiv> VITE_APPWRITE_URL"

abbreviation DATABASE_ID :: "config \<Rightarrow> string" where
  "DATABASE_ID \<equiv> VITE_APPWRITE_DATABASE_ID"

abbreviation USER_COLLECTION_ID :: "config \<Rightarrow> string" where
  "USER_COLLECTION_ID \<equiv> VITE_APPWRITE_USER_COLLECTION_ID"

abbreviation IMAGE_COLLECTION_ID :: "config \<Rightarrow> string" where
  "IMAGE_COLLECTION_ID \<equiv> VITE_APPWRITE_POST_COLLECTION_ID"

abbreviation STORAGE_BUCKET_ID :: "config \<Rightarrow> string" where
  "STORAGE_BUCKET_ID \<equiv> VITE_APPWRITE_STORAGE_ID"

definition ML_API_URL :: string where
  "ML_API_URL = ''https://detect.roboflow.com/drug_detection_project/9''"

definition ML_API_KEY :: string where
  "ML_API_KEY = ''Ajvqkk4nNlEiT1PUvWWD''"

definition TEXT_CHECK_URL :: string where
  "TEXT_CHECK_URL = ''https://api.sightengine.com/1.0/text/check.json''"

text \<open>\<^verbatim>\<open>xs[0]\<close>: \<^verbatim>\<open>undefined\<close> on an empty array.\<close>

definition first :: "'a list \<Rightarrow> 'a option" where
  "first xs = (case xs of [] \<Rightarrow> None | x # _ \<Rightarrow> Some x)"

text \<open>The template string that builds the view URL of a stored file.\<close>

definition fileUrl :: "config \<Rightarrow> string \<Rightarrow> string" where
  "fileUrl cfg fileId =
     APPWRITE_ENDPOINT cfg @ ''/storage/buckets/'' @ STORAGE_BUCKET_ID cfg @ ''/files/''
       @ fileId @ ''/view?project='' @ APPWRITE_PROJECT_ID cfg"

text \<open>The requests among the effects, in order.\<close>

fun calls :: "effect list \<Rightarrow> request list" where
  "calls [] = []"
| "calls (Call r # es) = r # calls es"
| "calls (_ # es) = calls es"

section \<open>PostForm.tsx\<close>

text \<open>\<^verbatim>\<open>error instanceof Error ? error.message : fallback\<close>.\<close>

definition errorMessage :: "js_error \<Rightarrow> string \<Rightarrow> string" where
  "errorMessage e fallback = (case e of Error m \<Rightarrow> m | NonError \<Rightarrow> fallback)"

text \<open>The \<^verbatim>\<open>TypeError\<close> raised by \<^verbatim>\<open>drug.matches\<close> on a body without it.\<close>

definition TypeError_matches :: js_error where
  "TypeError_matches = Error ''Cannot read properties of undefined (reading 'matches')''"

text \<open>
  \<^verbatim>\<open>checkForProhibitedContent\<close>: builds the form, posts it, and answers whether some match
  has type \<^verbatim>\<open>"drug"\<close>; whatever is thrown inside the \<^verbatim>\<open>try\<close> is toasted and answered by
  \<^verbatim>\<open>false\<close>.
\<close>

definition checkForProhibitedContent ::
    "config \<Rightarrow> replies \<Rightarrow> string \<Rightarrow> bool \<times> effect list" where
  "checkForProhibitedContent cfg rp caption' =
     (let data = [(''text'', caption'), (''lang'', ''en''), (''categories'', ''drug''),
                  (''mode'', ''rules''), (''api_user'', VITE_SIGHTENGINE_USER cfg),
                  (''api_secret'', VITE_SIGHTENGINE_SECRET cfg)];
          sent = [Call (TextCheck TEXT_CHECK_URL data)];
          caught = (\<lambda>t e. (False,
            t @ [Toast ''Content check failed'' (Some (errorMessage e ''Unknown error''))]))
      in case axios_post_text rp of
           Inl e \<Rightarrow> caught (sent @ [Rejected e]) e
         | Inr response_data \<Rightarrow>
             (case drug_matches response_data of
                None \<Rightarrow> caught sent TypeError_matches
              | Some matches \<Rightarrow> (list_ex (\<lambda>m. match_type m = ''drug'') matches, sent)))"

text \<open>\<^verbatim>\<open>updateUserFlag\<close>: one update with the patch \<^verbatim>\<open>{ flag: true }\<close>; a failure is toasted.\<close>

definition updateUserFlag :: "config \<Rightarrow> replies \<Rightarrow> string \<Rightarrow> effect list" where
  "updateUserFlag cfg rp uid =
     (let sent = [Call (DbUpdateDocument (VITE_APPWRITE_DB_ID cfg) ''Users'' uid True)]
      in case update_user_document rp of
           Inl e \<Rightarrow> sent @ [Rejected e, Toast ''User flag update failed''
                                          (Some (errorMessage e ''Unknown error''))]
         | Inr _ \<Rightarrow> sent)"

text \<open>\<^verbatim>\<open>uploadFile\<close>: a failure is toasted and thrown again.\<close>

definition uploadFile ::
    "config \<Rightarrow> replies \<Rightarrow> File \<Rightarrow> (js_error + document) \<times> effect list" where
  "uploadFile cfg rp f =
     (let sent = [Call (StorageCreateFile (VITE_APPWRITE_STORAGE_ID cfg) ''unique()'' (Some f))]
      in case storage_createFile rp of
           Inl e \<Rightarrow> (Inl e, sent @ [Rejected e, Toast ''File upload failed.''
                                                  (Some (errorMessage e ''File upload failed.''))])
         | Inr created \<Rightarrow> (Inr created, sent))"

definition action_name :: "action \<Rightarrow> string" where
  "action_name a = (case a of Create \<Rightarrow> ''Create'' | Update \<Rightarrow> ''Update'')"

text \<open>\<^verbatim>\<open>fileId || other\<close>: \<^verbatim>\<open>undefined\<close> and the empty string are falsy.\<close>

definition or_else :: "string option \<Rightarrow> string \<Rightarrow> string" where
  "or_else fileId other =
     (case fileId of None \<Rightarrow> other | Some s \<Rightarrow> if s = [] then other else s)"

text \<open>
  \<^verbatim>\<open>handleSubmit\<close>. The steps are awaited one after the other, so each step's effects
  follow those of the step before; a step that throws ends the handler with the effects
  performed so far.
\<close>

definition handleSubmit ::
    "config \<Rightarrow> replies \<Rightarrow> IUser \<Rightarrow> post_document option \<Rightarrow> action \<Rightarrow> post_values
       \<Rightarrow> (js_error + unit) \<times> effect list" where
  "handleSubmit cfg rp user post act v =
     (let (flagged, t1) = checkForProhibitedContent cfg rp (caption v);
          t2 = t1 @ (if flagged then updateUserFlag cfg rp (user_dollar_id user) else []);
          (uploaded, t3) =
            (if length (files v) > 0
             then (case uploadFile cfg rp (hd (files v)) of
                     (Inl e, t) \<Rightarrow> (Inl e, t2 @ t)
                   | (Inr fileUploadResponse, t) \<Rightarrow>
                       (Inr (Some (dollar_id fileUploadResponse)), t2 @ t))
             else (Inr None, t2))
      in case uploaded of
           Inl e \<Rightarrow> (Inl e, t3)
         | Inr fileId \<Rightarrow>
             (case (post, act) of
                (Some p, Update) \<Rightarrow>
                  (let t4 = t3 @ [Call (UpdatePost
                         (post_values.extend v
                            (IUpdatePost.fields (dollar_id p)
                               (or_else fileId (post_imageId p)) (post_imageUrl p))))]
                   in case updatePost rp of
                        Inl e \<Rightarrow> (Inl e, t4 @ [Rejected e])
                      | Inr updatedPost \<Rightarrow>
                          (Inr (),
                           t4 @ (if updatedPost = None
                                 then [Toast (action_name act @ '' post failed. Please try again.'') None]
                                 else [])
                              @ [Navigate (''/posts/'' @ dollar_id p)]))
              | _ \<Rightarrow>
                  (let t4 = t3 @ [Call (CreatePost
                         (post_values.extend v
                            (INewPost.fields (user_dollar_id user) fileId)))]
                   in case createPost rp of
                        Inl e \<Rightarrow> (Inl e, t4 @ [Rejected e])
                      | Inr newPost \<Rightarrow>
                          (Inr (),
                           t4 @ (if newPost = None
                                 then [Toast (action_name act @ '' post failed. Please try again.'') None]
                                 else [])
                              @ [Navigate ''/'']))))"

section \<open>FileUploader.tsx\<close>

text \<open>
  The \<^verbatim>\<open>catch\<close> blocks of this component: the thrown value is written to the console, and
  the message too when the value is an \<^verbatim>\<open>Error\<close>.
\<close>

definition log_with_details :: "string \<Rightarrow> js_error \<Rightarrow> effect list" where
  "log_with_details label e =
     ConsoleError label e #
       (case e of Error m \<Rightarrow> [ConsoleErrorMessage ''Error details:'' m] | NonError \<Rightarrow> [])"

text \<open>
  \<^verbatim>\<open>updateAppwriteFlags(userId, imageId, flagValue)\<close>: the user's document first, then the
  image's; a failure of either ends the \<^verbatim>\<open>try\<close> block and is logged.
\<close>

definition updateAppwriteFlags ::
    "config \<Rightarrow> replies \<Rightarrow> string \<Rightarrow> string \<Rightarrow> bool \<Rightarrow> effect list" where
  "updateAppwriteFlags cfg rp uid iid flagValue =
     (let t1 = [Call (DbUpdateDocument (DATABASE_ID cfg) (USER_COLLECTION_ID cfg) uid flagValue)]
      in case update_user_document rp of
           Inl e \<Rightarrow> t1 @ Rejected e # log_with_details ''Error updating flags in Appwrite:'' e
         | Inr _ \<Rightarrow>
             (let t2 = t1 @ [Call (DbUpdateDocument (DATABASE_ID cfg) (IMAGE_COLLECTION_ID cfg)
                                     iid flagValue)]
              in case update_image_document rp of
                   Inl e \<Rightarrow> t2 @ Rejected e #
                              log_with_details ''Error updating flags in Appwrite:'' e
                 | Inr _ \<Rightarrow> t2))"

text \<open>\<^verbatim>\<open>confidence * 100 > 50\<close>.\<close>

definition over_50_percent :: "real option \<Rightarrow> bool" where
  "over_50_percent c = (case c of None \<Rightarrow> False | Some x \<Rightarrow> x * 100 > 50)"

text \<open>The body of the \<^verbatim>\<open>try\<close> block of \<^verbatim>\<open>onDrop\<close>; \<open>Inl\<close> is what it throws.\<close>

definition onDrop_try ::
    "config \<Rightarrow> replies \<Rightarrow> string \<Rightarrow> File list \<Rightarrow> (js_error + unit) \<times> effect list" where
  "onDrop_try cfg rp uid acceptedFiles =
     (let t1 = [Call (StorageCreateFile (STORAGE_BUCKET_ID cfg) (ID_unique_file rp)
                        (first acceptedFiles))]
      in case storage_createFile rp of
           Inl e \<Rightarrow> (Inl e, t1 @ [Rejected e])
         | Inr appwriteFile \<Rightarrow>
             (let fileId = dollar_id appwriteFile;
                  url = fileUrl cfg fileId;
                  t2 = t1 @ [Call (DbCreateDocument (DATABASE_ID cfg) (IMAGE_COLLECTION_ID cfg)
                                     (ID_unique_document rp)
                                     \<lparr>imageId = fileId, imageUrl = url, flag = False,
                                      creator = uid, image_caption = [], likes = [],
                                      image_tags = []\<rparr>)]
              in case databases_createDocument rp of
                   Inl e \<Rightarrow> (Inl e, t2 @ [Rejected e])
                 | Inr imageDocument \<Rightarrow>
                     (let t3 = t2 @ [Call (MlPost ML_API_URL ML_API_KEY url)]
                      in case axios_post_ml rp of
                           Inl e \<Rightarrow> (Inl e, t3 @ [Rejected e])
                         | Inr response_data \<Rightarrow>
                             (case predictions response_data of
                                None \<Rightarrow> (Inr (), t3)
                              | Some ps \<Rightarrow>
                                  if length ps > 0
                                  then (if over_50_percent (confidence (hd ps))
                                        then (Inr (), t3 @ updateAppwriteFlags cfg rp uid
                                                            (dollar_id imageDocument) True)
                                        else (Inr (), t3))
                                  else (Inr (), t3)))))"

text \<open>
  \<^verbatim>\<open>onDrop\<close>: the component state is updated and the local preview URL computed before the
  \<^verbatim>\<open>try\<close> block; what the block throws is logged.
\<close>

definition onDrop ::
    "config \<Rightarrow> replies \<Rightarrow> string \<Rightarrow> File list \<Rightarrow> (js_error + unit) \<times> effect list" where
  "onDrop cfg rp uid acceptedFiles =
     (let t0 = [SetFile acceptedFiles, FieldChange acceptedFiles]
      in case convertFileToUrl rp (first acceptedFiles) of
           Inl e \<Rightarrow> (Inl e, t0)
         | Inr localFileUrl \<Rightarrow>
             (let t1 = t0 @ [SetFileUrl localFileUrl]
              in case onDrop_try cfg rp uid acceptedFiles of
                   (Inl e, t) \<Rightarrow>
                     (Inr (), t1 @ t @ log_with_details
                                ''Error uploading the file or fetching prediction:'' e)
                 | (Inr _, t) \<Rightarrow> (Inr (), t1 @ t)))"

section \<open>The variant of FileUploader in part\_000\<close>

text \<open>
  \<^verbatim>\<open>updateAppwriteFlags(flagValue)\<close>: in each of the two collections, the documents whose
  flag is \<^verbatim>\<open>!flagValue\<close> are listed and the first one listed, when there is one, is updated.
\<close>

definition updateAppwriteFlags_part_000 :: "config \<Rightarrow> replies \<Rightarrow> bool \<Rightarrow> effect list" where
  "updateAppwriteFlags_part_000 cfg rp flagValue =
     (let caught = (\<lambda>t e. t @ [Rejected e,
                                   ConsoleError ''Error updating flags in Appwrite:'' e]);
          t1 = [Call (DbListDocuments (DATABASE_ID cfg) (USER_COLLECTION_ID cfg) (\<not> flagValue))]
      in case list_user_documents rp of
           Inl e \<Rightarrow> caught t1 e
         | Inr userDocuments \<Rightarrow>
             (let (userUpdate, t2) =
                    (if length userDocuments > 0
                     then (update_user_document rp,
                           t1 @ [Call (DbUpdateDocument (DATABASE_ID cfg) (USER_COLLECTION_ID cfg)
                                         (dollar_id (hd userDocuments)) flagValue)])
                     else (Inr (), t1))
              in case userUpdate of
                   Inl e \<Rightarrow> caught t2 e
                 | Inr _ \<Rightarrow>
                     (let t3 = t2 @ [Call (DbListDocuments (DATABASE_ID cfg)
                                             (IMAGE_COLLECTION_ID cfg) (\<not> flagValue))]
                      in case list_image_documents rp of
                           Inl e \<Rightarrow> caught t3 e
                         | Inr imageDocuments \<Rightarrow>
                             (let (imageUpdate, t4) =
                                    (if length imageDocuments > 0
                                     then (update_image_document rp,
                                           t3 @ [Call (DbUpdateDocument (DATABASE_ID cfg)
                                                         (IMAGE_COLLECTION_ID cfg)
                                                         (dollar_id (hd imageDocuments))
                                                         flagValue)])
                                     else (Inr (), t3))
                              in case imageUpdate of
                                   Inl e \<Rightarrow> caught t4 e
                                 | Inr _ \<Rightarrow> t4))))"

definition onDrop_try_part_000 ::
    "config \<Rightarrow> replies \<Rightarrow> File list \<Rightarrow> (js_error + unit) \<times> effect list" where
  "onDrop_try_part_000 cfg rp acceptedFiles =
     (let t1 = [Call (StorageCreateFile (STORAGE_BUCKET_ID cfg) ''unique()''
                        (first acceptedFiles))]
      in case storage_createFile rp of
           Inl e \<Rightarrow> (Inl e, t1 @ [Rejected e])
         | Inr appwriteFile \<Rightarrow>
             (let fileId = dollar_id appwriteFile;
                  url = fileUrl cfg fileId;
                  t2 = t1 @ [Call (MlPost ML_API_URL ML_API_KEY url)]
              in case axios_post_ml rp of
                   Inl e \<Rightarrow> (Inl e, t2 @ [Rejected e])
                 | Inr response_data \<Rightarrow>
                     (case predictions response_data of
                        None \<Rightarrow> (Inr (), t2)
                      | Some ps \<Rightarrow>
                          if length ps > 0
                          then (if over_50_percent (confidence (hd ps))
                                then (Inr (), t2 @ updateAppwriteFlags_part_000 cfg rp True)
                                else (Inr (), t2))
                          else (Inr (), t2))))"

definition onDrop_part_000 ::
    "config \<Rightarrow> replies \<Rightarrow> File list \<Rightarrow> (js_error + unit) \<times> effect list" where
  "onDrop_part_000 cfg rp acceptedFiles =
     (let t0 = [SetFile acceptedFiles, FieldChange acceptedFiles]
      in case convertFileToUrl rp (first acceptedFiles) of
           Inl e \<Rightarrow> (Inl e, t0)
         | Inr url \<Rightarrow>
             (let t1 = t0 @ [SetFileUrl url]
              in case onDrop_try_part_000 cfg rp acceptedFiles of
                   (Inl e, t) \<Rightarrow>
                     (Inr (), t1 @ t @ [ConsoleError
                                ''Error uploading the file or fetching prediction:'' e])
                 | (Inr _, t) \<Rightarrow> (Inr (), t1 @ t)))"

section \<open>Observations on a run\<close>

text \<open>The requests that write a flag to an existing document.\<close>

fun is_flag_update :: "request \<Rightarrow> bool" where
  "is_flag_update (DbUpdateDocument _ _ _ _) = True"
| "is_flag_update _ = False"

definition flag_updates :: "effect list \<Rightarrow> request list" where
  "flag_updates t = filter is_flag_update (calls t)"

text \<open>The requests of the flag update of part\_000: its listings and its updates.\<close>

fun is_flag_request :: "request \<Rightarrow> bool" where
  "is_flag_request (DbUpdateDocument _ _ _ _) = True"
| "is_flag_request (DbListDocuments _ _ _) = True"
| "is_flag_request _ = False"

text \<open>The requests that create a document.\<close>

fun is_create_document :: "request \<Rightarrow> bool" where
  "is_create_document (DbCreateDocument _ _ _ _) = True"
| "is_create_document _ = False"

text \<open>The two mutations of a post.\<close>

fun is_post_mutation :: "request \<Rightarrow> bool" where
  "is_post_mutation (CreatePost _) = True"
| "is_post_mutation (UpdatePost _) = True"
| "is_post_mutation _ = False"

text \<open>
  The condition of the specification on the answer of the inference call: there is a
  response, its predictions list is present and non-empty, and the confidence of the first
  prediction, times 100, is strictly greater than 50.
\<close>

definition first_prediction_over_50 :: "js_error + ml_data \<Rightarrow> bool" where
  "first_prediction_over_50 r =
     (case r of
        Inl _ \<Rightarrow> False
      | Inr d \<Rightarrow>
          (case predictions d of
             None \<Rightarrow> False
           | Some [] \<Rightarrow> False
           | Some (p # _) \<Rightarrow> (case confidence p of None \<Rightarrow> False | Some c \<Rightarrow> 50 < c * 100)))"

text \<open>An error that reached the console, and one that reached a toast.\<close>

definition logged :: "effect list \<Rightarrow> js_error \<Rightarrow> bool" where
  "logged t e = (\<exists>label. ConsoleError label e \<in> set t)"

definition toasted :: "effect list \<Rightarrow> js_error \<Rightarrow> bool" where
  "toasted t e = (\<exists>title fallback. Toast title (Some (errorMessage e fallback)) \<in> set t)"

text \<open>The mutation \<^verbatim>\<open>handleSubmit\<close> ends with, and what it answers.\<close>

definition mutation_reply ::
    "replies \<Rightarrow> post_document option \<Rightarrow> action \<Rightarrow> js_error + post_document option" where
  "mutation_reply rp post act =
     (case (post, act) of (Some _, Update) \<Rightarrow> updatePost rp | _ \<Rightarrow> createPost rp)"

section \<open>A sample run\<close>

definition demo_config :: config where
  "demo_config =
     \<lparr>VITE_APPWRITE_PROJECT_ID = ''proj'', VITE_APPWRITE_URL = ''https://aw.example/v1'',
      VITE_APPWRITE_DATABASE_ID = ''db'', VITE_APPWRITE_USER_COLLECTION_ID = ''users'',
      VITE_APPWRITE_POST_COLLECTION_ID = ''posts'', VITE_APPWRITE_STORAGE_ID = ''media'',
      VITE_APPWRITE_DB_ID = ''db'', VITE_SIGHTENGINE_USER = ''se-user'',
      VITE_SIGHTENGINE_SECRET = ''se-secret''\<rparr>"

text \<open>
  Every service answers; the classifier reports a confidence of 0.9, the moderation
  service one match of type \<^verbatim>\<open>drug\<close>, and the listings of unflagged documents start with
  another user (\<^verbatim>\<open>bob\<close>) and an older image document (\<^verbatim>\<open>img0\<close>).
\<close>

definition demo_replies :: replies where
  "demo_replies =
     \<lparr>convertFileToUrl = (\<lambda>f. Inr ''blob:preview''),
      ID_unique_file = ''u1'', ID_unique_document = ''u2'',
      storage_createFile = Inr \<lparr>dollar_id = ''file1''\<rparr>,
      databases_createDocument = Inr \<lparr>dollar_id = ''img1''\<rparr>,
      axios_post_ml = Inr \<lparr>predictions = Some [\<lparr>confidence = Some (9 / 10)\<rparr>]\<rparr>,
      update_user_document = Inr (),
      update_image_document = Inr (),
      list_user_documents = Inr [\<lparr>dollar_id = ''bob''\<rparr>, \<lparr>dollar_id = ''alice''\<rparr>],
      list_image_documents = Inr [\<lparr>dollar_id = ''img0''\<rparr>, \<lparr>dollar_id = ''img1''\<rparr>],
      axios_post_text = Inr \<lparr>status = ''success'', drug_matches = Some
        [\<lparr>match_type = ''drug'', match_match = ''weed'', match_start = 4, match_end = 8\<rparr>]\<rparr>,
      createPost = Inr (Some \<lparr>dollar_id = ''post2'', post_imageId = ''file1'',
        post_imageUrl = ''https://aw.example/v1/f/file1''\<rparr>),
      updatePost = Inr (Some \<lparr>dollar_id = ''post1'', post_imageId = ''file0'',
        post_imageUrl = ''https://aw.example/v1/f/file0''\<rparr>)\<rparr>"

definition demo_user :: IUser where
  "demo_user = \<lparr>user_dollar_id = ''alice'', user_id = ''alice'', user_flag = False\<rparr>"

definition demo_post :: post_document where
  "demo_post = \<lparr>dollar_id = ''post1'', post_imageId = ''file0'',
                post_imageUrl = ''https://aw.example/v1/f/file0''\<rparr>"

definition demo_values :: post_values where
  "demo_values = \<lparr>caption = ''buy weed'', files = [], location = ''Pune'', tags = ''a,b''\<rparr>"

section \<open>Facts about the effect lists\<close>

lemma calls_append: "calls (xs @ ys) = calls xs @ calls ys"
  by (induction xs rule: calls.induct) simp_all

lemma toasted_append: "toasted (xs @ ys) e \<longleftrightarrow> toasted xs e \<or> toasted ys e"
  by (auto simp add: toasted_def)

lemma toasted_simps:
  "toasted [] e = False"
  "toasted (Call r # xs) e = toasted xs e"
  "toasted (Rejected x # xs) e = toasted xs e"
  "toasted (Toast title (Some (errorMessage e fallback)) # xs) e = True"
  by (auto simp add: toasted_def)

section \<open>The steps of PostForm\<close>

lemma check_calls:
  "calls (snd (checkForProhibitedContent cfg rp c)) =
     [TextCheck TEXT_CHECK_URL
        [(''text'', c), (''lang'', ''en''), (''categories'', ''drug''), (''mode'', ''rules''),
         (''api_user'', VITE_SIGHTENGINE_USER cfg), (''api_secret'', VITE_SIGHTENGINE_SECRET cfg)]]"
  by (simp add: checkForProhibitedContent_def Let_def split: sum.splits option.splits)

lemma check_result:
  "fst (checkForProhibitedContent cfg rp c) =
     (\<exists>d ms. axios_post_text rp = Inr d \<and> drug_matches d = Some ms \<and>
        (\<exists>m \<in> set ms. match_type m = ''drug''))"
  by (auto simp add: checkForProhibitedContent_def Let_def list_ex_iff
        split: sum.splits option.splits)

lemma check_rejected:
  "Rejected e \<in> set (snd (checkForProhibitedContent cfg rp c)) \<Longrightarrow>
     toasted (snd (checkForProhibitedContent cfg rp c)) e"
  by (cases "axios_post_text rp")
     (auto simp add: checkForProhibitedContent_def toasted_def Let_def split: option.splits)

lemma updateUserFlag_calls:
  "calls (updateUserFlag cfg rp uid) =
     [DbUpdateDocument (VITE_APPWRITE_DB_ID cfg) ''Users'' uid True]"
  by (simp add: updateUserFlag_def Let_def split: sum.splits)

lemma updateUserFlag_rejected:
  "Rejected e \<in> set (updateUserFlag cfg rp uid) \<Longrightarrow> toasted (updateUserFlag cfg rp uid) e"
  by (cases "update_user_document rp") (auto simp add: updateUserFlag_def toasted_def)

lemma uploadFile_rejected:
  "Rejected e \<in> set (snd (uploadFile cfg rp f)) \<Longrightarrow> toasted (snd (uploadFile cfg rp f)) e"
  by (cases "storage_createFile rp") (auto simp add: uploadFile_def toasted_simps)

text \<open>
  The requests of one submission, in the order they are sent. The last one is missing when
  the upload throws; its image id is the uploaded file's when a file was uploaded.
\<close>

lemma handleSubmit_calls:
  "calls (snd (handleSubmit cfg rp user post act v)) =
      calls (snd (checkForProhibitedContent cfg rp (caption v)))
      @ (if fst (checkForProhibitedContent cfg rp (caption v))
         then calls (updateUserFlag cfg rp (user_dollar_id user)) else [])
      @ (if files v \<noteq> []
         then [StorageCreateFile (VITE_APPWRITE_STORAGE_ID cfg) ''unique()'' (Some (hd (files v)))]
         else [])
      @ (if files v \<noteq> [] \<and> isl (storage_createFile rp) then []
         else [case (post, act) of
                 (Some p, Update) \<Rightarrow>
                   UpdatePost (post_values.extend v (IUpdatePost.fields (dollar_id p)
                     (or_else (if files v = [] then None
                               else Some (dollar_id (projr (storage_createFile rp))))
                        (post_imageId p))
                     (post_imageUrl p)))
               | _ \<Rightarrow>
                   CreatePost (post_values.extend v (INewPost.fields (user_dollar_id user)
                     (if files v = [] then None
                      else Some (dollar_id (projr (storage_createFile rp))))))])"
proof -
  obtain flagged t1 where c: "checkForProhibitedContent cfg rp (caption v) = (flagged, t1)"
    by (cases "checkForProhibitedContent cfg rp (caption v)")
  show ?thesis
  proof (cases "files v = []")
    case True
    then show ?thesis
      by (cases post; cases act; cases "updatePost rp"; cases "createPost rp")
         (simp_all add: handleSubmit_def c calls_append)
  next
    case False
    then show ?thesis
      by (cases post; cases act; cases "updatePost rp"; cases "createPost rp";
          cases "storage_createFile rp")
         (simp_all add: handleSubmit_def c calls_append uploadFile_def)
  qed
qed

lemma handleSubmit_prefix:
  "\<exists>rest. snd (handleSubmit cfg rp user post act v) =
            snd (checkForProhibitedContent cfg rp (caption v)) @ rest"
proof -
  obtain flagged t1 where c: "checkForProhibitedContent cfg rp (caption v) = (flagged, t1)"
    by (cases "checkForProhibitedContent cfg rp (caption v)")
  show ?thesis
    by (cases "files v = []"; cases post; cases act; cases "updatePost rp"; cases "createPost rp";
        cases "storage_createFile rp")
       (simp_all add: handleSubmit_def c uploadFile_def)
qed

lemma handleSubmit_result:
  "fst (handleSubmit cfg rp user post act v) =
     (if files v \<noteq> [] \<and> isl (storage_createFile rp) then Inl (projl (storage_createFile rp))
      else case mutation_reply rp post act of Inl e \<Rightarrow> Inl e | Inr _ \<Rightarrow> Inr ())"
proof -
  obtain flagged t1 where c: "checkForProhibitedContent cfg rp (caption v) = (flagged, t1)"
    by (cases "checkForProhibitedContent cfg rp (caption v)")
  show ?thesis
    by (cases "files v = []"; cases post; cases act; cases "updatePost rp"; cases "createPost rp";
        cases "storage_createFile rp")
       (simp_all add: handleSubmit_def c uploadFile_def mutation_reply_def)
qed

text \<open>The effects of each step: its request, then what settles it.\<close>

lemma check_effects:
  "snd (checkForProhibitedContent cfg rp c) =
     Call (TextCheck ''https://api.sightengine.com/1.0/text/check.json''
        [(''text'', c), (''lang'', ''en''), (''categories'', ''drug''), (''mode'', ''rules''),
         (''api_user'', VITE_SIGHTENGINE_USER cfg), (''api_secret'', VITE_SIGHTENGINE_SECRET cfg)]) #
     (case axios_post_text rp of
        Inl e \<Rightarrow> [Rejected e,
                  Toast ''Content check failed'' (Some (errorMessage e ''Unknown error''))]
      | Inr d \<Rightarrow>
          (case drug_matches d of
             None \<Rightarrow> [Toast ''Content check failed''
                        (Some (errorMessage TypeError_matches ''Unknown error''))]
           | Some _ \<Rightarrow> []))"
  by (simp add: checkForProhibitedContent_def TEXT_CHECK_URL_def Let_def
        split: sum.splits option.splits)

lemma updateUserFlag_effects:
  "updateUserFlag cfg rp uid =
     Call (DbUpdateDocument (VITE_APPWRITE_DB_ID cfg) ''Users'' uid True) #
     (case update_user_document rp of
        Inl e \<Rightarrow> [Rejected e,
                  Toast ''User flag update failed'' (Some (errorMessage e ''Unknown error''))]
      | Inr _ \<Rightarrow> [])"
  by (simp add: updateUserFlag_def split: sum.splits)

lemma uploadFile_effects:
  "snd (uploadFile cfg rp f) =
     Call (StorageCreateFile (VITE_APPWRITE_STORAGE_ID cfg) ''unique()'' (Some f)) #
     (case storage_createFile rp of
        Inl e \<Rightarrow> [Rejected e,
                  Toast ''File upload failed.'' (Some (errorMessage e ''File upload failed.''))]
      | Inr _ \<Rightarrow> [])"
  by (simp add: uploadFile_def split: sum.splits)

text \<open>
  The effects of one submission, exactly: the four steps one after the other, the last one
  missing when the upload throws.
\<close>

lemma handleSubmit_steps:
  "snd (handleSubmit cfg rp user post act v) =
       snd (checkForProhibitedContent cfg rp (caption v))
       @ (if fst (checkForProhibitedContent cfg rp (caption v))
          then updateUserFlag cfg rp (user_dollar_id user) else [])
       @ (if files v \<noteq> [] then snd (uploadFile cfg rp (hd (files v))) else [])
       @ (if files v \<noteq> [] \<and> isl (storage_createFile rp) then []
          else Call (case (post, act) of
                 (Some p, Update) \<Rightarrow>
                   UpdatePost (post_values.extend v (IUpdatePost.fields (dollar_id p)
                     (or_else (if files v = [] then None
                               else Some (dollar_id (projr (storage_createFile rp))))
                        (post_imageId p))
                     (post_imageUrl p)))
               | _ \<Rightarrow>
                   CreatePost (post_values.extend v (INewPost.fields (user_dollar_id user)
                     (if files v = [] then None
                      else Some (dollar_id (projr (storage_createFile rp))))))) #
               (case mutation_reply rp post act of
                  Inl e \<Rightarrow> [Rejected e]
                | Inr answer \<Rightarrow>
                    (if answer = None
                     then [Toast (action_name act @ '' post failed. Please try again.'') None]
                     else []) @
                    [Navigate (case (post, act) of
                                 (Some p, Update) \<Rightarrow> ''/posts/'' @ dollar_id p
                               | _ \<Rightarrow> ''/'')]))"
proof -
  obtain flagged t1 where c: "checkForProhibitedContent cfg rp (caption v) = (flagged, t1)"
    by (cases "checkForProhibitedContent cfg rp (caption v)")
  show ?thesis
  proof (cases "files v = []")
    case True
    then show ?thesis
      by (cases post; cases act; cases "updatePost rp"; cases "createPost rp")
         (simp_all add: handleSubmit_def c mutation_reply_def)
  next
    case False
    then show ?thesis
      by (cases post; cases act; cases "updatePost rp"; cases "createPost rp";
          cases "storage_createFile rp")
         (simp_all add: handleSubmit_def c uploadFile_def mutation_reply_def)
  qed
qed

text \<open>
  The effects of one submission, step by step; a rejection among the effects of the last
  step is the rejection of the mutation, which ends the handler.
\<close>

lemma handleSubmit_effects:
  "\<exists>tail. snd (handleSubmit cfg rp user post act v) =
       snd (checkForProhibitedContent cfg rp (caption v))
       @ (if fst (checkForProhibitedContent cfg rp (caption v))
          then updateUserFlag cfg rp (user_dollar_id user) else [])
       @ (if files v \<noteq> [] then snd (uploadFile cfg rp (hd (files v))) else [])
       @ tail \<and>
     (\<forall>e. Rejected e \<in> set tail \<longrightarrow>
        fst (handleSubmit cfg rp user post act v) = Inl e \<and> mutation_reply rp post act = Inl e)"
proof -
  obtain flagged t1 where c: "checkForProhibitedContent cfg rp (caption v) = (flagged, t1)"
    by (cases "checkForProhibitedContent cfg rp (caption v)")
  show ?thesis
    by (cases "files v = []"; cases post; cases act; cases "updatePost rp"; cases "createPost rp";
        cases "storage_createFile rp")
       (simp_all add: handleSubmit_def c uploadFile_def mutation_reply_def)
qed

lemma handleSubmit_rejected:
  assumes a: "Rejected e \<in> set (snd (handleSubmit cfg rp user post act v))"
  shows "toasted (snd (handleSubmit cfg rp user post act v)) e \<or>
     (fst (handleSubmit cfg rp user post act v) = Inl e \<and> mutation_reply rp post act = Inl e)"
proof -
  obtain tail where
    t: "snd (handleSubmit cfg rp user post act v) =
       snd (checkForProhibitedContent cfg rp (caption v))
       @ (if fst (checkForProhibitedContent cfg rp (caption v))
          then updateUserFlag cfg rp (user_dollar_id user) else [])
       @ (if files v \<noteq> [] then snd (uploadFile cfg rp (hd (files v))) else [])
       @ tail" and
    r: "\<And>e. Rejected e \<in> set tail \<Longrightarrow>
        fst (handleSubmit cfg rp user post act v) = Inl e \<and> mutation_reply rp post act = Inl e"
    using handleSubmit_effects[of cfg rp user post act v] by blast
  from a consider
      "Rejected e \<in> set (snd (checkForProhibitedContent cfg rp (caption v)))"
    | "fst (checkForProhibitedContent cfg rp (caption v))"
      "Rejected e \<in> set (updateUserFlag cfg rp (user_dollar_id user))"
    | "files v \<noteq> []" "Rejected e \<in> set (snd (uploadFile cfg rp (hd (files v))))"
    | "Rejected e \<in> set tail"
    unfolding t by (auto split: if_splits)
  then show ?thesis
  proof cases
    case 1
    then show ?thesis unfolding t by (simp add: toasted_append check_rejected)
  next
    case 2
    then show ?thesis unfolding t by (simp add: toasted_append updateUserFlag_rejected)
  next
    case 3
    then show ?thesis unfolding t by (simp add: toasted_append uploadFile_rejected)
  next
    case 4
    then show ?thesis using r by blast
  qed
qed

section \<open>The steps of the two uploaders\<close>

lemma logged_append: "logged (xs @ ys) e \<longleftrightarrow> logged xs e \<or> logged ys e"
  by (auto simp add: logged_def)

lemma logged_simps:
  "logged [] e = False"
  "logged (Call r # xs) e = logged xs e"
  "logged (Rejected x # xs) e = logged xs e"
  "logged (SetFile fs # xs) e = logged xs e"
  "logged (FieldChange fs # xs) e = logged xs e"
  "logged (SetFileUrl u # xs) e = logged xs e"
  "logged (ConsoleError label e # xs) e = True"
  by (auto simp add: logged_def)

lemma logged_log_with_details: "logged (log_with_details label e) e"
  by (simp add: log_with_details_def logged_simps)

lemma rejected_log_with_details: "Rejected x \<notin> set (log_with_details label e)"
  by (cases e) (simp_all add: log_with_details_def)

lemma over_50_iff:
  "first_prediction_over_50 (Inr d) \<longleftrightarrow>
     (\<exists>ps. predictions d = Some ps \<and> 0 < length ps \<and> over_50_percent (confidence (hd ps)))"
  by (auto simp add: first_prediction_over_50_def over_50_percent_def
        split: option.splits list.splits)

lemma first_prediction_Inl: "\<not> first_prediction_over_50 (Inl e)"
  by (simp add: first_prediction_over_50_def)

lemma calls_log_with_details: "calls (log_with_details label e) = []"
  by (cases e) (simp_all add: log_with_details_def)

lemma updateAppwriteFlags_calls:
  "calls (updateAppwriteFlags cfg rp uid iid b) =
     DbUpdateDocument (DATABASE_ID cfg) (USER_COLLECTION_ID cfg) uid b #
       (case update_user_document rp of
          Inl _ \<Rightarrow> []
        | Inr _ \<Rightarrow> [DbUpdateDocument (DATABASE_ID cfg) (IMAGE_COLLECTION_ID cfg) iid b])"
  by (cases "update_user_document rp"; cases "update_image_document rp")
     (simp_all add: updateAppwriteFlags_def Let_def calls_append calls_log_with_details)

lemma onDrop_try_calls:
  "calls (snd (onDrop_try cfg rp uid fs)) =
     StorageCreateFile (STORAGE_BUCKET_ID cfg) (ID_unique_file rp) (first fs) #
       (case storage_createFile rp of
          Inl _ \<Rightarrow> []
        | Inr created \<Rightarrow>
            DbCreateDocument (DATABASE_ID cfg) (IMAGE_COLLECTION_ID cfg) (ID_unique_document rp)
              \<lparr>imageId = dollar_id created, imageUrl = fileUrl cfg (dollar_id created),
               flag = False, creator = uid, image_caption = [], likes = [], image_tags = []\<rparr> #
            (case databases_createDocument rp of
               Inl _ \<Rightarrow> []
             | Inr imageDocument \<Rightarrow>
                 MlPost ML_API_URL ML_API_KEY (fileUrl cfg (dollar_id created)) #
                 (if first_prediction_over_50 (axios_post_ml rp)
                  then calls (updateAppwriteFlags cfg rp uid (dollar_id imageDocument) True)
                  else [])))"
proof (cases "storage_createFile rp")
  case (Inl e)
  then show ?thesis by (simp add: onDrop_try_def Let_def)
next
  case f: (Inr created)
  show ?thesis
  proof (cases "databases_createDocument rp")
    case (Inl e)
    then show ?thesis by (simp add: onDrop_try_def Let_def f)
  next
    case d: (Inr imageDocument)
    show ?thesis
    proof (cases "axios_post_ml rp")
      case (Inl e)
      then show ?thesis by (simp add: onDrop_try_def Let_def f d first_prediction_Inl)
    next
      case (Inr response_data)
      then show ?thesis
        by (cases "predictions response_data")
           (simp_all add: onDrop_try_def Let_def f d over_50_iff calls_append)
    qed
  qed
qed

lemma onDrop_try_result:
  "fst (onDrop_try cfg rp uid fs) =
     (case storage_createFile rp of
        Inl e \<Rightarrow> Inl e
      | Inr _ \<Rightarrow>
          (case databases_createDocument rp of
             Inl e \<Rightarrow> Inl e
           | Inr _ \<Rightarrow> (case axios_post_ml rp of Inl e \<Rightarrow> Inl e | Inr _ \<Rightarrow> Inr ())))"
  by (cases "storage_createFile rp"; cases "databases_createDocument rp"; cases "axios_post_ml rp")
     (simp_all add: onDrop_try_def Let_def split: option.splits)

lemma onDrop_calls:
  "calls (snd (onDrop cfg rp uid fs)) =
     (case convertFileToUrl rp (first fs) of
        Inl _ \<Rightarrow> []
      | Inr _ \<Rightarrow> calls (snd (onDrop_try cfg rp uid fs)))"
  by (cases "convertFileToUrl rp (first fs)"; cases "onDrop_try cfg rp uid fs";
      cases "fst (onDrop_try cfg rp uid fs)")
     (simp_all add: onDrop_def Let_def calls_append calls_log_with_details)

lemma onDrop_result:
  "fst (onDrop cfg rp uid fs) =
     (case convertFileToUrl rp (first fs) of Inl e \<Rightarrow> Inl e | Inr _ \<Rightarrow> Inr ())"
  by (cases "convertFileToUrl rp (first fs)"; cases "onDrop_try cfg rp uid fs";
      cases "fst (onDrop_try cfg rp uid fs)")
     (simp_all add: onDrop_def Let_def)

lemma updateAppwriteFlags_part_000_calls:
  "calls (updateAppwriteFlags_part_000 cfg rp b) =
     DbListDocuments (DATABASE_ID cfg) (USER_COLLECTION_ID cfg) (\<not> b) #
       (case list_user_documents rp of
          Inl _ \<Rightarrow> []
        | Inr us \<Rightarrow>
            (if us \<noteq> []
             then [DbUpdateDocument (DATABASE_ID cfg) (USER_COLLECTION_ID cfg)
                     (dollar_id (hd us)) b]
             else []) @
            (if us \<noteq> [] \<and> isl (update_user_document rp) then []
             else DbListDocuments (DATABASE_ID cfg) (IMAGE_COLLECTION_ID cfg) (\<not> b) #
                    (case list_image_documents rp of
                       Inl _ \<Rightarrow> []
                     | Inr ims \<Rightarrow>
                         (if ims \<noteq> []
                          then [DbUpdateDocument (DATABASE_ID cfg) (IMAGE_COLLECTION_ID cfg)
                                  (dollar_id (hd ims)) b]
                          else []))))"
proof (cases "list_user_documents rp")
  case (Inl e)
  then show ?thesis by (simp add: updateAppwriteFlags_part_000_def Let_def calls_append)
next
  case u: (Inr us)
  show ?thesis
  proof (cases "list_image_documents rp")
    case (Inl e)
    then show ?thesis
      by (cases "us = []"; cases "update_user_document rp")
         (simp_all add: updateAppwriteFlags_part_000_def Let_def u calls_append)
  next
    case (Inr ims)
    then show ?thesis
      by (cases "us = []"; cases "update_user_document rp"; cases "ims = []";
          cases "update_image_document rp")
         (simp_all add: updateAppwriteFlags_part_000_def Let_def u calls_append)
  qed
qed

lemma onDrop_try_part_000_calls:
  "calls (snd (onDrop_try_part_000 cfg rp fs)) =
     StorageCreateFile (STORAGE_BUCKET_ID cfg) ''unique()'' (first fs) #
       (case storage_createFile rp of
          Inl _ \<Rightarrow> []
        | Inr created \<Rightarrow>
            MlPost ML_API_URL ML_API_KEY (fileUrl cfg (dollar_id created)) #
            (if first_prediction_over_50 (axios_post_ml rp)
             then calls (updateAppwriteFlags_part_000 cfg rp True)
             else []))"
proof (cases "storage_createFile rp")
  case (Inl e)
  then show ?thesis by (simp add: onDrop_try_part_000_def Let_def)
next
  case f: (Inr created)
  show ?thesis
  proof (cases "axios_post_ml rp")
    case (Inl e)
    then show ?thesis by (simp add: onDrop_try_part_000_def Let_def f first_prediction_Inl)
  next
    case (Inr response_data)
    then show ?thesis
      by (cases "predictions response_data")
         (simp_all add: onDrop_try_part_000_def Let_def f over_50_iff calls_append)
  qed
qed

lemma onDrop_part_000_calls:
  "calls (snd (onDrop_part_000 cfg rp fs)) =
     (case convertFileToUrl rp (first fs) of
        Inl _ \<Rightarrow> []
      | Inr _ \<Rightarrow> calls (snd (onDrop_try_part_000 cfg rp fs)))"
  by (cases "convertFileToUrl rp (first fs)"; cases "onDrop_try_part_000 cfg rp fs";
      cases "fst (onDrop_try_part_000 cfg rp fs)")
     (simp_all add: onDrop_part_000_def Let_def calls_append)

lemma onDrop_part_000_result:
  "fst (onDrop_part_000 cfg rp fs) =
     (case convertFileToUrl rp (first fs) of Inl e \<Rightarrow> Inl e | Inr _ \<Rightarrow> Inr ())"
  by (cases "convertFileToUrl rp (first fs)"; cases "onDrop_try_part_000 cfg rp fs";
      cases "fst (onDrop_try_part_000 cfg rp fs)")
     (simp_all add: onDrop_part_000_def Let_def)

lemma updateAppwriteFlags_rejected:
  "Rejected e \<in> set (updateAppwriteFlags cfg rp uid iid b) \<Longrightarrow>
     logged (updateAppwriteFlags cfg rp uid iid b) e"
  by (cases "update_user_document rp"; cases "update_image_document rp")
     (auto simp add: updateAppwriteFlags_def Let_def logged_append logged_simps
        logged_log_with_details rejected_log_with_details)

lemma onDrop_try_rejected:
  assumes "Rejected e \<in> set (snd (onDrop_try cfg rp uid fs))"
  shows "fst (onDrop_try cfg rp uid fs) = Inl e \<or> logged (snd (onDrop_try cfg rp uid fs)) e"
proof (cases "storage_createFile rp")
  case (Inl x)
  with assms show ?thesis by (simp add: onDrop_try_def Let_def)
next
  case f: (Inr created)
  show ?thesis
  proof (cases "databases_createDocument rp")
    case (Inl x)
    with assms show ?thesis by (simp add: onDrop_try_def Let_def f)
  next
    case d: (Inr imageDocument)
    show ?thesis
    proof (cases "axios_post_ml rp")
      case (Inl x)
      with assms show ?thesis by (simp add: onDrop_try_def Let_def f d)
    next
      case (Inr response_data)
      with assms show ?thesis
        using updateAppwriteFlags_rejected[of e cfg rp uid "dollar_id imageDocument" True]
        by (cases "predictions response_data")
           (auto simp add: onDrop_try_def Let_def f d logged_append logged_simps
              split: if_splits)
    qed
  qed
qed

lemma onDrop_rejected:
  "Rejected e \<in> set (snd (onDrop cfg rp uid fs)) \<Longrightarrow> logged (snd (onDrop cfg rp uid fs)) e"
  using onDrop_try_rejected[of e cfg rp uid fs]
  by (cases "convertFileToUrl rp (first fs)"; cases "onDrop_try cfg rp uid fs";
      cases "fst (onDrop_try cfg rp uid fs)")
     (auto simp add: onDrop_def Let_def logged_append logged_simps logged_log_with_details
        rejected_log_with_details)

lemma updateAppwriteFlags_part_000_rejected:
  assumes "Rejected e \<in> set (updateAppwriteFlags_part_000 cfg rp b)"
  shows "logged (updateAppwriteFlags_part_000 cfg rp b) e"
proof (cases "list_user_documents rp")
  case (Inl x)
  with assms show ?thesis
    by (auto simp add: updateAppwriteFlags_part_000_def Let_def logged_append logged_simps)
next
  case u: (Inr us)
  show ?thesis
  proof (cases "list_image_documents rp")
    case (Inl x)
    with assms show ?thesis
      by (cases "us = []"; cases "update_user_document rp")
         (auto simp add: updateAppwriteFlags_part_000_def Let_def u logged_append logged_simps)
  next
    case (Inr ims)
    with assms show ?thesis
      by (cases "us = []"; cases "update_user_document rp"; cases "ims = []";
          cases "update_image_document rp")
         (auto simp add: updateAppwriteFlags_part_000_def Let_def u logged_append logged_simps)
  qed
qed

lemma onDrop_try_part_000_rejected:
  assumes "Rejected e \<in> set (snd (onDrop_try_part_000 cfg rp fs))"
  shows "fst (onDrop_try_part_000 cfg rp fs) = Inl e \<or>
     logged (snd (onDrop_try_part_000 cfg rp fs)) e"
proof (cases "storage_createFile rp")
  case (Inl x)
  with assms show ?thesis by (simp add: onDrop_try_part_000_def Let_def)
next
  case f: (Inr created)
  show ?thesis
  proof (cases "axios_post_ml rp")
    case (Inl x)
    with assms show ?thesis by (simp add: onDrop_try_part_000_def Let_def f)
  next
    case (Inr response_data)
    with assms show ?thesis
      using updateAppwriteFlags_part_000_rejected[of e cfg rp True]
      by (cases "predictions response_data")
         (auto simp add: onDrop_try_part_000_def Let_def f logged_append logged_simps
            split: if_splits)
  qed
qed

lemma onDrop_part_000_rejected:
  "Rejected e \<in> set (snd (onDrop_part_000 cfg rp fs)) \<Longrightarrow>
     logged (snd (onDrop_part_000 cfg rp fs)) e"
  using onDrop_try_part_000_rejected[of e cfg rp fs]
  by (cases "convertFileToUrl rp (first fs)"; cases "onDrop_try_part_000 cfg rp fs";
      cases "fst (onDrop_try_part_000 cfg rp fs)")
     (auto simp add: onDrop_part_000_def Let_def logged_append logged_simps)

section \<open>The flag updates and the document creations of a run\<close>

lemma in_flag_updates:
  "DbUpdateDocument db coll d b \<in> set (calls t) \<longleftrightarrow>
     DbUpdateDocument db coll d b \<in> set (flag_updates t)"
  by (simp add: flag_updates_def)

lemma flag_updates_onDrop:
  "flag_updates (snd (onDrop cfg rp uid fs)) =
     (if \<not> isl (convertFileToUrl rp (first fs)) \<and> \<not> isl (storage_createFile rp) \<and>
         \<not> isl (databases_createDocument rp) \<and> first_prediction_over_50 (axios_post_ml rp)
      then DbUpdateDocument (DATABASE_ID cfg) (USER_COLLECTION_ID cfg) uid True #
             (if isl (update_user_document rp) then []
              else [DbUpdateDocument (DATABASE_ID cfg) (IMAGE_COLLECTION_ID cfg)
                      (dollar_id (projr (databases_createDocument rp))) True])
      else [])"
  by (cases "convertFileToUrl rp (first fs)"; cases "storage_createFile rp";
      cases "databases_createDocument rp"; cases "update_user_document rp")
     (simp_all add: flag_updates_def onDrop_calls onDrop_try_calls updateAppwriteFlags_calls)

lemma flag_requests_onDrop_part_000:
  "filter is_flag_request (calls (snd (onDrop_part_000 cfg rp fs))) =
     (if \<not> isl (convertFileToUrl rp (first fs)) \<and> \<not> isl (storage_createFile rp) \<and>
         first_prediction_over_50 (axios_post_ml rp)
      then filter is_flag_request (calls (updateAppwriteFlags_part_000 cfg rp True))
      else [])"
  by (cases "convertFileToUrl rp (first fs)"; cases "storage_createFile rp")
     (simp_all add: onDrop_part_000_calls onDrop_try_part_000_calls)

lemma flag_requests_updateAppwriteFlags_part_000:
  "filter is_flag_request (calls (updateAppwriteFlags_part_000 cfg rp b)) =
     calls (updateAppwriteFlags_part_000 cfg rp b)"
proof (cases "list_user_documents rp")
  case (Inl e)
  then show ?thesis by (simp add: updateAppwriteFlags_part_000_calls)
next
  case u: (Inr us)
  show ?thesis
    by (cases "list_image_documents rp")
       (simp_all add: updateAppwriteFlags_part_000_calls u)
qed

lemma flag_updates_onDrop_part_000:
  "flag_updates (snd (onDrop_part_000 cfg rp fs)) =
     (if \<not> isl (convertFileToUrl rp (first fs)) \<and> \<not> isl (storage_createFile rp) \<and>
         first_prediction_over_50 (axios_post_ml rp)
      then (case list_user_documents rp of
              Inl _ \<Rightarrow> []
            | Inr us \<Rightarrow>
                (if us \<noteq> []
                 then [DbUpdateDocument (DATABASE_ID cfg) (USER_COLLECTION_ID cfg)
                         (dollar_id (hd us)) True]
                 else []) @
                (if us \<noteq> [] \<and> isl (update_user_document rp) then []
                 else (case list_image_documents rp of
                         Inl _ \<Rightarrow> []
                       | Inr ims \<Rightarrow>
                           (if ims \<noteq> []
                            then [DbUpdateDocument (DATABASE_ID cfg) (IMAGE_COLLECTION_ID cfg)
                                    (dollar_id (hd ims)) True]
                            else []))))
      else [])"
  by (cases "convertFileToUrl rp (first fs)"; cases "storage_createFile rp";
      cases "list_user_documents rp"; cases "list_image_documents rp")
     (simp_all add: flag_updates_def onDrop_part_000_calls onDrop_try_part_000_calls
        updateAppwriteFlags_part_000_calls)

lemma flag_updates_handleSubmit:
  "flag_updates (snd (handleSubmit cfg rp user post act v)) =
     (if fst (checkForProhibitedContent cfg rp (caption v))
      then [DbUpdateDocument (VITE_APPWRITE_DB_ID cfg) ''Users'' (user_dollar_id user) True]
      else [])"
  by (cases post; cases act)
     (simp_all add: flag_updates_def handleSubmit_calls check_calls updateUserFlag_calls)

lemma is_create_updateAppwriteFlags:
  "filter is_create_document (calls (updateAppwriteFlags cfg rp uid iid b)) = []"
  by (simp add: updateAppwriteFlags_calls split: sum.splits)

lemma creates_onDrop:
  "filter is_create_document (calls (snd (onDrop cfg rp uid fs))) =
     (if \<not> isl (convertFileToUrl rp (first fs)) \<and> \<not> isl (storage_createFile rp)
      then [DbCreateDocument (DATABASE_ID cfg) (IMAGE_COLLECTION_ID cfg) (ID_unique_document rp)
              \<lparr>imageId = dollar_id (projr (storage_createFile rp)),
               imageUrl = fileUrl cfg (dollar_id (projr (storage_createFile rp))),
               flag = False, creator = uid, image_caption = [], likes = [], image_tags = []\<rparr>]
      else [])"
  by (cases "convertFileToUrl rp (first fs)"; cases "storage_createFile rp";
      cases "databases_createDocument rp")
     (simp_all add: onDrop_calls onDrop_try_calls is_create_updateAppwriteFlags)

lemma creates_onDrop_part_000:
  "filter is_create_document (calls (snd (onDrop_part_000 cfg rp fs))) = []"
  by (cases "convertFileToUrl rp (first fs)"; cases "storage_createFile rp";
      cases "list_user_documents rp"; cases "list_image_documents rp")
     (simp_all add: onDrop_part_000_calls onDrop_try_part_000_calls
        updateAppwriteFlags_part_000_calls)

lemma creates_handleSubmit:
  "filter is_create_document (calls (snd (handleSubmit cfg rp user post act v))) = []"
  by (cases post; cases act)
     (simp_all add: handleSubmit_calls check_calls updateUserFlag_calls)

lemmas demo_defs = demo_config_def demo_replies_def demo_user_def demo_post_def demo_values_def

lemmas uploader_defs = onDrop_def onDrop_try_def updateAppwriteFlags_def log_with_details_def
  over_50_percent_def first_def fileUrl_def ML_API_URL_def ML_API_KEY_def onDrop_part_000_def
  onDrop_try_part_000_def updateAppwriteFlags_part_000_def

section \<open>The claims\<close>

subsection \<open>C1: the confidence threshold\<close>

text \<open>
  Claim C1 says that on every drop the user's and the image's flag are set to true exactly
  when the first prediction's confidence times 100 exceeds 50. The run below is a drop of
  \<^verbatim>\<open>FileUploader.tsx\<close> where the classifier answers 0.9 and the update of the user's
  document is rejected: the error is logged, and no update of the image's flag is sent.
\<close>

theorem onDrop_image_flag_unset_when_user_update_fails:
  "first_prediction_over_50
     (axios_post_ml (demo_replies\<lparr>update_user_document := Inl (Error ''Document not found'')\<rparr>)) \<and>
   onDrop demo_config (demo_replies\<lparr>update_user_document := Inl (Error ''Document not found'')\<rparr>)
     ''alice'' [''a.png''] =
   (Inr (),
    [SetFile [''a.png''], FieldChange [''a.png''], SetFileUrl ''blob:preview'',
     Call (StorageCreateFile ''media'' ''u1'' (Some ''a.png'')),
     Call (DbCreateDocument ''db'' ''posts'' ''u2''
       \<lparr>imageId = ''file1'',
        imageUrl = ''https://aw.example/v1/storage/buckets/media/files/file1/view?project=proj'',
        flag = False, creator = ''alice'', image_caption = [], likes = [], image_tags = []\<rparr>),
     Call (MlPost ''https://detect.roboflow.com/drug_detection_project/9''
       ''Ajvqkk4nNlEiT1PUvWWD''
       ''https://aw.example/v1/storage/buckets/media/files/file1/view?project=proj''),
     Call (DbUpdateDocument ''db'' ''users'' ''alice'' True),
     Rejected (Error ''Document not found''),
     ConsoleError ''Error updating flags in Appwrite:'' (Error ''Document not found''),
     ConsoleErrorMessage ''Error details:'' ''Document not found''])"
  by (simp add: demo_defs first_prediction_over_50_def onDrop_def onDrop_try_def
        updateAppwriteFlags_def log_with_details_def over_50_percent_def first_def fileUrl_def
        ML_API_URL_def ML_API_KEY_def Let_def)

text \<open>
  Claim C1, amended. On every drop a flag update is started if and only if the steps before
  it succeeded (the preview URL, the upload and, in \<^verbatim>\<open>FileUploader.tsx\<close>, the creation of the
  image document) and the inference response has a non-empty predictions list whose first
  confidence, times 100, is strictly greater than 50; otherwise no flag request is sent.
  Every flag update writes \<^verbatim>\<open>true\<close>. In \<^verbatim>\<open>FileUploader.tsx\<close> the flag update is the update of
  the user's document, followed by the update of the image document created by the drop
  exactly when the first update was not rejected. In part\_000 the flag update is the listing
  of the unflagged users, the update of the first user listed if there is one, and, unless
  the listing or that update was rejected, the listing of the unflagged images and the
  update of the first image listed if there is one.
\<close>

theorem onDrop_flag_update_iff_over_threshold:
  "flag_updates (snd (onDrop cfg rp uid fs)) =
     (if \<not> isl (convertFileToUrl rp (first fs)) \<and> \<not> isl (storage_createFile rp) \<and>
         \<not> isl (databases_createDocument rp) \<and> first_prediction_over_50 (axios_post_ml rp)
      then DbUpdateDocument (DATABASE_ID cfg) (USER_COLLECTION_ID cfg) uid True #
             (if isl (update_user_document rp) then []
              else [DbUpdateDocument (DATABASE_ID cfg) (IMAGE_COLLECTION_ID cfg)
                      (dollar_id (projr (databases_createDocument rp))) True])
      else []) \<and>
   filter is_flag_request (calls (snd (onDrop_part_000 cfg rp fs))) =
     (if \<not> isl (convertFileToUrl rp (first fs)) \<and> \<not> isl (storage_createFile rp) \<and>
         first_prediction_over_50 (axios_post_ml rp)
      then DbListDocuments (DATABASE_ID cfg) (USER_COLLECTION_ID cfg) False #
        (if isl (list_user_documents rp) then []
         else (if projr (list_user_documents rp) \<noteq> []
               then [DbUpdateDocument (DATABASE_ID cfg) (USER_COLLECTION_ID cfg)
                       (dollar_id (hd (projr (list_user_documents rp)))) True]
               else []) @
              (if projr (list_user_documents rp) \<noteq> [] \<and> isl (update_user_document rp) then []
               else DbListDocuments (DATABASE_ID cfg) (IMAGE_COLLECTION_ID cfg) False #
                 (if isl (list_image_documents rp) then []
                  else if projr (list_image_documents rp) \<noteq> []
                       then [DbUpdateDocument (DATABASE_ID cfg) (IMAGE_COLLECTION_ID cfg)
                               (dollar_id (hd (projr (list_image_documents rp)))) True]
                       else [])))
      else []) \<and>
   (flag_updates (snd (onDrop cfg rp uid fs)) \<noteq> [] \<longleftrightarrow>
      \<not> isl (convertFileToUrl rp (first fs)) \<and> \<not> isl (storage_createFile rp) \<and>
      \<not> isl (databases_createDocument rp) \<and> first_prediction_over_50 (axios_post_ml rp)) \<and>
   (filter is_flag_request (calls (snd (onDrop_part_000 cfg rp fs))) \<noteq> [] \<longleftrightarrow>
      \<not> isl (convertFileToUrl rp (first fs)) \<and> \<not> isl (storage_createFile rp) \<and>
      first_prediction_over_50 (axios_post_ml rp))"
proof (intro conjI)
  show "flag_updates (snd (onDrop cfg rp uid fs)) =
     (if \<not> isl (convertFileToUrl rp (first fs)) \<and> \<not> isl (storage_createFile rp) \<and>
         \<not> isl (databases_createDocument rp) \<and> first_prediction_over_50 (axios_post_ml rp)
      then DbUpdateDocument (DATABASE_ID cfg) (USER_COLLECTION_ID cfg) uid True #
             (if isl (update_user_document rp) then []
              else [DbUpdateDocument (DATABASE_ID cfg) (IMAGE_COLLECTION_ID cfg)
                      (dollar_id (projr (databases_createDocument rp))) True])
      else [])"
    by (rule flag_updates_onDrop)
  show "filter is_flag_request (calls (snd (onDrop_part_000 cfg rp fs))) =
     (if \<not> isl (convertFileToUrl rp (first fs)) \<and> \<not> isl (storage_createFile rp) \<and>
         first_prediction_over_50 (axios_post_ml rp)
      then DbListDocuments (DATABASE_ID cfg) (USER_COLLECTION_ID cfg) False #
        (if isl (list_user_documents rp) then []
         else (if projr (list_user_documents rp) \<noteq> []
               then [DbUpdateDocument (DATABASE_ID cfg) (USER_COLLECTION_ID cfg)
                       (dollar_id (hd (projr (list_user_documents rp)))) True]
               else []) @
              (if projr (list_user_documents rp) \<noteq> [] \<and> isl (update_user_document rp) then []
               else DbListDocuments (DATABASE_ID cfg) (IMAGE_COLLECTION_ID cfg) False #
                 (if isl (list_image_documents rp) then []
                  else if projr (list_image_documents rp) \<noteq> []
                       then [DbUpdateDocument (DATABASE_ID cfg) (IMAGE_COLLECTION_ID cfg)
                               (dollar_id (hd (projr (list_image_documents rp)))) True]
                       else [])))
      else [])"
    unfolding flag_requests_onDrop_part_000 flag_requests_updateAppwriteFlags_part_000
    by (cases "list_user_documents rp"; cases "list_image_documents rp")
       (simp_all add: updateAppwriteFlags_part_000_calls)
  show "flag_updates (snd (onDrop cfg rp uid fs)) \<noteq> [] \<longleftrightarrow>
      \<not> isl (convertFileToUrl rp (first fs)) \<and> \<not> isl (storage_createFile rp) \<and>
      \<not> isl (databases_createDocument rp) \<and> first_prediction_over_50 (axios_post_ml rp)"
    by (simp add: flag_updates_onDrop)
  show "filter is_flag_request (calls (snd (onDrop_part_000 cfg rp fs))) \<noteq> [] \<longleftrightarrow>
      \<not> isl (convertFileToUrl rp (first fs)) \<and> \<not> isl (storage_createFile rp) \<and>
      first_prediction_over_50 (axios_post_ml rp)"
    by (simp add: flag_requests_onDrop_part_000 updateAppwriteFlags_part_000_calls)
qed

text \<open>
  The sample drop with confidence 0.9 sends both updates, and only the user's when that
  update is rejected; with confidence exactly 0.5, with an empty predictions list and with
  no predictions list it sends none. In part\_000 the same drop lists and updates the first
  user and the first image, only lists when the listings are empty, and sends nothing at
  confidence 0.5.
\<close>

theorem onDrop_flag_update_iff_over_threshold_witness:
  "flag_updates (snd (onDrop demo_config demo_replies ''alice'' [''a.png''])) =
     [DbUpdateDocument ''db'' ''users'' ''alice'' True,
      DbUpdateDocument ''db'' ''posts'' ''img1'' True] \<and>
   flag_updates (snd (onDrop demo_config
      (demo_replies\<lparr>update_user_document := Inl (Error ''Document not found'')\<rparr>)
      ''alice'' [''a.png''])) = [DbUpdateDocument ''db'' ''users'' ''alice'' True] \<and>
   flag_updates (snd (onDrop demo_config
      (demo_replies\<lparr>axios_post_ml := Inr \<lparr>predictions = Some [\<lparr>confidence = Some (1 / 2)\<rparr>]\<rparr>\<rparr>)
      ''alice'' [''a.png''])) = [] \<and>
   flag_updates (snd (onDrop demo_config
      (demo_replies\<lparr>axios_post_ml := Inr \<lparr>predictions = Some []\<rparr>\<rparr>) ''alice'' [''a.png''])) = [] \<and>
   flag_updates (snd (onDrop demo_config
      (demo_replies\<lparr>axios_post_ml := Inr \<lparr>predictions = None\<rparr>\<rparr>) ''alice'' [''a.png''])) = [] \<and>
   filter is_flag_request (calls (snd (onDrop_part_000 demo_config demo_replies [''a.png'']))) =
     [DbListDocuments ''db'' ''users'' False, DbUpdateDocument ''db'' ''users'' ''bob'' True,
      DbListDocuments ''db'' ''posts'' False, DbUpdateDocument ''db'' ''posts'' ''img0'' True] \<and>
   filter is_flag_request (calls (snd (onDrop_part_000 demo_config
      (demo_replies\<lparr>list_user_documents := Inr [], list_image_documents := Inr []\<rparr>)
      [''a.png'']))) =
     [DbListDocuments ''db'' ''users'' False, DbListDocuments ''db'' ''posts'' False] \<and>
   filter is_flag_request (calls (snd (onDrop_part_000 demo_config
      (demo_replies\<lparr>axios_post_ml := Inr \<lparr>predictions = Some [\<lparr>confidence = Some (1 / 2)\<rparr>]\<rparr>\<rparr>)
      [''a.png'']))) = []"
proof -
  let ?rejected = "demo_replies\<lparr>update_user_document := Inl (Error ''Document not found'')\<rparr>"
  let ?half = "demo_replies\<lparr>axios_post_ml :=
                 Inr \<lparr>predictions = Some [\<lparr>confidence = Some (1 / 2)\<rparr>]\<rparr>\<rparr>"
  let ?empty = "demo_replies\<lparr>axios_post_ml := Inr \<lparr>predictions = Some []\<rparr>\<rparr>"
  let ?absent = "demo_replies\<lparr>axios_post_ml := Inr \<lparr>predictions = None\<rparr>\<rparr>"
  let ?nolist = "demo_replies\<lparr>list_user_documents := Inr [], list_image_documents := Inr []\<rparr>"
  note c = onDrop_flag_update_iff_over_threshold[where cfg = demo_config and uid = "''alice''" and fs = "[''a.png'']"]
  have 1: "flag_updates (snd (onDrop demo_config demo_replies ''alice'' [''a.png''])) =
     [DbUpdateDocument ''db'' ''users'' ''alice'' True,
      DbUpdateDocument ''db'' ''posts'' ''img1'' True]"
    unfolding c[where rp = demo_replies, THEN conjunct1]
    by (simp add: demo_config_def demo_replies_def first_prediction_over_50_def)
  have 2: "flag_updates (snd (onDrop demo_config ?rejected ''alice'' [''a.png''])) =
     [DbUpdateDocument ''db'' ''users'' ''alice'' True]"
    unfolding c[where rp = ?rejected, THEN conjunct1]
    by (simp add: demo_config_def demo_replies_def first_prediction_over_50_def)
  have 3: "flag_updates (snd (onDrop demo_config ?half ''alice'' [''a.png''])) = []"
    unfolding c[where rp = ?half, THEN conjunct1]
    by (simp add: first_prediction_over_50_def)
  have 4: "flag_updates (snd (onDrop demo_config ?empty ''alice'' [''a.png''])) = []"
    unfolding c[where rp = ?empty, THEN conjunct1]
    by (simp add: first_prediction_over_50_def)
  have 5: "flag_updates (snd (onDrop demo_config ?absent ''alice'' [''a.png''])) = []"
    unfolding c[where rp = ?absent, THEN conjunct1]
    by (simp add: first_prediction_over_50_def)
  have 6: "filter is_flag_request
             (calls (snd (onDrop_part_000 demo_config demo_replies [''a.png'']))) =
     [DbListDocuments ''db'' ''users'' False, DbUpdateDocument ''db'' ''users'' ''bob'' True,
      DbListDocuments ''db'' ''posts'' False, DbUpdateDocument ''db'' ''posts'' ''img0'' True]"
    unfolding c[where rp = demo_replies, THEN conjunct2, THEN conjunct1]
    by (simp add: demo_config_def demo_replies_def first_prediction_over_50_def)
  have 7: "filter is_flag_request
             (calls (snd (onDrop_part_000 demo_config ?nolist [''a.png'']))) =
     [DbListDocuments ''db'' ''users'' False, DbListDocuments ''db'' ''posts'' False]"
    unfolding c[where rp = ?nolist, THEN conjunct2, THEN conjunct1]
    by (simp add: demo_config_def demo_replies_def first_prediction_over_50_def)
  have 8: "filter is_flag_request
             (calls (snd (onDrop_part_000 demo_config ?half [''a.png'']))) = []"
    unfolding c[where rp = ?half, THEN conjunct2, THEN conjunct1]
    by (simp add: first_prediction_over_50_def)
  from 1 2 3 4 5 6 7 8 show ?thesis by blast
qed

subsection \<open>C2: the caption check and the post\<close>

text \<open>
  Claim C2 says that a post whose caption is flagged is not created. In the run below the
  moderation service reports a match of type \<^verbatim>\<open>drug\<close>: the user's flag is updated, and the
  post is created all the same.
\<close>

theorem handleSubmit_posts_flagged_caption:
  "fst (checkForProhibitedContent demo_config demo_replies (caption demo_values)) \<and>
   snd (handleSubmit demo_config demo_replies demo_user None Create demo_values) =
     [Call (TextCheck ''https://api.sightengine.com/1.0/text/check.json''
        [(''text'', ''buy weed''), (''lang'', ''en''), (''categories'', ''drug''),
         (''mode'', ''rules''), (''api_user'', ''se-user''), (''api_secret'', ''se-secret'')]),
      Call (DbUpdateDocument ''db'' ''Users'' ''alice'' True),
      Call (CreatePost \<lparr>caption = ''buy weed'', files = [], location = ''Pune'',
         tags = ''a,b'', userId = ''alice'', new_imageId = None\<rparr>),
      Navigate ''/'']"
  by (simp add: demo_defs handleSubmit_def checkForProhibitedContent_def updateUserFlag_def
        TEXT_CHECK_URL_def INewPost.defs post_values.defs)

text \<open>
  Claim C2, amended. In every submission \<^verbatim>\<open>checkForProhibitedContent(caption)\<close> completes
  before anything else: the effects of the submission start with the effects of the check,
  which contain no creation or update of a post. A flagged caption makes the handler send
  the update of the user's flag, and does not stop the post: unless the file upload throws,
  the post is created or updated afterwards, flagged or not.
\<close>

theorem handleSubmit_checks_first_and_still_posts:
  "\<exists>rest. snd (handleSubmit cfg rp user post act v) =
            snd (checkForProhibitedContent cfg rp (caption v)) @ rest \<and>
     (\<forall>r \<in> set (calls (snd (checkForProhibitedContent cfg rp (caption v)))).
         \<not> is_post_mutation r) \<and>
     (fst (checkForProhibitedContent cfg rp (caption v)) \<longrightarrow>
        DbUpdateDocument (VITE_APPWRITE_DB_ID cfg) ''Users'' (user_dollar_id user) True
          \<in> set (calls rest)) \<and>
     (\<not> (files v \<noteq> [] \<and> isl (storage_createFile rp)) \<longrightarrow>
        (\<exists>m \<in> set (calls rest). is_post_mutation m))"
proof -
  obtain rest where r: "snd (handleSubmit cfg rp user post act v) =
            snd (checkForProhibitedContent cfg rp (caption v)) @ rest"
    using handleSubmit_prefix by blast
  have "calls (snd (handleSubmit cfg rp user post act v)) =
          calls (snd (checkForProhibitedContent cfg rp (caption v))) @ calls rest"
    by (simp add: r calls_append)
  then have c: "calls rest =
       (if fst (checkForProhibitedContent cfg rp (caption v))
         then calls (updateUserFlag cfg rp (user_dollar_id user)) else [])
      @ (if files v \<noteq> []
         then [StorageCreateFile (VITE_APPWRITE_STORAGE_ID cfg) ''unique()'' (Some (hd (files v)))]
         else [])
      @ (if files v \<noteq> [] \<and> isl (storage_createFile rp) then []
         else [case (post, act) of
                 (Some p, Update) \<Rightarrow>
                   UpdatePost (post_values.extend v (IUpdatePost.fields (dollar_id p)
                     (or_else (if files v = [] then None
                               else Some (dollar_id (projr (storage_createFile rp))))
                        (post_imageId p))
                     (post_imageUrl p)))
               | _ \<Rightarrow>
                   CreatePost (post_values.extend v (INewPost.fields (user_dollar_id user)
                     (if files v = [] then None
                      else Some (dollar_id (projr (storage_createFile rp))))))])"
    unfolding handleSubmit_calls by simp
  have "(\<forall>r \<in> set (calls (snd (checkForProhibitedContent cfg rp (caption v)))).
         \<not> is_post_mutation r)"
    by (simp add: check_calls)
  moreover have "fst (checkForProhibitedContent cfg rp (caption v)) \<longrightarrow>
        DbUpdateDocument (VITE_APPWRITE_DB_ID cfg) ''Users'' (user_dollar_id user) True
          \<in> set (calls rest)"
    by (simp add: c updateUserFlag_calls)
  moreover have "\<not> (files v \<noteq> [] \<and> isl (storage_createFile rp)) \<longrightarrow>
        (\<exists>m \<in> set (calls rest). is_post_mutation m)"
    unfolding c by (cases post; cases act) auto
  ultimately show ?thesis using r by blast
qed

theorem handleSubmit_checks_first_and_still_posts_witness:
  "fst (checkForProhibitedContent demo_config demo_replies (caption demo_values)) \<and>
   \<not> (files demo_values \<noteq> [] \<and> isl (storage_createFile demo_replies)) \<and>
   (\<exists>rest. snd (handleSubmit demo_config demo_replies demo_user None Create demo_values) =
            snd (checkForProhibitedContent demo_config demo_replies (caption demo_values)) @ rest \<and>
      DbUpdateDocument ''db'' ''Users'' ''alice'' True \<in> set (calls rest) \<and>
      (\<exists>m \<in> set (calls rest). is_post_mutation m))"
proof -
  have f: "fst (checkForProhibitedContent demo_config demo_replies (caption demo_values))"
    by (simp add: demo_defs checkForProhibitedContent_def)
  have n: "\<not> (files demo_values \<noteq> [] \<and> isl (storage_createFile demo_replies))"
    by (simp add: demo_values_def)
  have u: "VITE_APPWRITE_DB_ID demo_config = ''db''" "user_dollar_id demo_user = ''alice''"
    by (simp_all add: demo_config_def demo_user_def)
  show ?thesis
    using handleSubmit_checks_first_and_still_posts[of demo_config demo_replies demo_user None
        Create demo_values] f n
    unfolding u by blast
qed

subsection \<open>C3: the two uploaders as flag writers\<close>

text \<open>
  Claim C3 says that the two uploaders update the same user document and the same image
  document. On the sample run, with the same file and the same answers of the services,
  \<^verbatim>\<open>FileUploader.tsx\<close> updates the uploading user \<^verbatim>\<open>alice\<close> and the image document
  \<^verbatim>\<open>img1\<close> it created, and part\_000 updates \<^verbatim>\<open>bob\<close> and \<^verbatim>\<open>img0\<close>, the first documents
  of the two listings.
\<close>

theorem uploaders_flag_different_documents:
  "first_prediction_over_50 (axios_post_ml demo_replies) \<and>
   flag_updates (snd (onDrop demo_config demo_replies ''alice'' [''a.png''])) =
     [DbUpdateDocument ''db'' ''users'' ''alice'' True,
      DbUpdateDocument ''db'' ''posts'' ''img1'' True] \<and>
   flag_updates (snd (onDrop_part_000 demo_config demo_replies [''a.png''])) =
     [DbUpdateDocument ''db'' ''users'' ''bob'' True,
      DbUpdateDocument ''db'' ''posts'' ''img0'' True]"
  by (simp add: flag_updates_onDrop flag_updates_onDrop_part_000 demo_replies_def demo_config_def
        first_prediction_over_50_def first_def)

text \<open>
  Claim C3, amended. Given the same file and the same above-threshold response, and when
  the calls before the flag update, the listings and the update of the user's document
  succeed, both uploaders write only \<^verbatim>\<open>flag: true\<close>, to a user document and then to an
  image document. \<^verbatim>\<open>FileUploader.tsx\<close> updates the document of the uploading user
  and the image document it created; part\_000 updates, in each collection, the first
  document listed with an unset flag, and nothing where the listing is empty. The two
  sequences of updates are equal exactly when the first listed documents are the
  uploading user's and the created image document.
\<close>

theorem uploaders_flag_targets:
  assumes "\<not> isl (convertFileToUrl rp (first fs))"
    and "\<not> isl (storage_createFile rp)"
    and "databases_createDocument rp = Inr imageDocument"
    and "first_prediction_over_50 (axios_post_ml rp)"
    and "\<not> isl (update_user_document rp)"
    and "list_user_documents rp = Inr us" and "list_image_documents rp = Inr ims"
  shows "flag_updates (snd (onDrop cfg rp uid fs)) =
           [DbUpdateDocument (DATABASE_ID cfg) (USER_COLLECTION_ID cfg) uid True,
            DbUpdateDocument (DATABASE_ID cfg) (IMAGE_COLLECTION_ID cfg)
              (dollar_id imageDocument) True] \<and>
         flag_updates (snd (onDrop_part_000 cfg rp fs)) =
           (case us of [] \<Rightarrow> []
            | u # _ \<Rightarrow> [DbUpdateDocument (DATABASE_ID cfg) (USER_COLLECTION_ID cfg)
                          (dollar_id u) True]) @
           (case ims of [] \<Rightarrow> []
            | i # _ \<Rightarrow> [DbUpdateDocument (DATABASE_ID cfg) (IMAGE_COLLECTION_ID cfg)
                          (dollar_id i) True]) \<and>
         (flag_updates (snd (onDrop cfg rp uid fs)) =
            flag_updates (snd (onDrop_part_000 cfg rp fs)) \<longleftrightarrow>
          (\<exists>u us' i ims'. us = u # us' \<and> ims = i # ims' \<and> dollar_id u = uid \<and>
             dollar_id i = dollar_id imageDocument))"
  using assms
  by (cases us; cases ims)
     (auto simp add: flag_updates_onDrop flag_updates_onDrop_part_000)

theorem uploaders_flag_targets_witness:
  "\<not> isl (convertFileToUrl demo_replies (first [''a.png''])) \<and>
   \<not> isl (storage_createFile demo_replies) \<and>
   databases_createDocument demo_replies = Inr \<lparr>dollar_id = ''img1''\<rparr> \<and>
   first_prediction_over_50 (axios_post_ml demo_replies) \<and>
   \<not> isl (update_user_document demo_replies) \<and>
   list_user_documents demo_replies = Inr [\<lparr>dollar_id = ''bob''\<rparr>, \<lparr>dollar_id = ''alice''\<rparr>] \<and>
   list_image_documents demo_replies = Inr [\<lparr>dollar_id = ''img0''\<rparr>, \<lparr>dollar_id = ''img1''\<rparr>] \<and>
   flag_updates (snd (onDrop demo_config demo_replies ''alice'' [''a.png''])) =
     [DbUpdateDocument ''db'' ''users'' ''alice'' True,
      DbUpdateDocument ''db'' ''posts'' ''img1'' True] \<and>
   flag_updates (snd (onDrop_part_000 demo_config demo_replies [''a.png''])) =
     [DbUpdateDocument ''db'' ''users'' ''bob'' True,
      DbUpdateDocument ''db'' ''posts'' ''img0'' True] \<and>
   flag_updates (snd (onDrop demo_config demo_replies ''alice'' [''a.png''])) \<noteq>
   flag_updates (snd (onDrop_part_000 demo_config demo_replies [''a.png'']))"
proof -
  have h: "\<not> isl (convertFileToUrl demo_replies (first [''a.png'']))"
    "\<not> isl (storage_createFile demo_replies)"
    "databases_createDocument demo_replies = Inr \<lparr>dollar_id = ''img1''\<rparr>"
    "first_prediction_over_50 (axios_post_ml demo_replies)"
    "\<not> isl (update_user_document demo_replies)"
    "list_user_documents demo_replies = Inr [\<lparr>dollar_id = ''bob''\<rparr>, \<lparr>dollar_id = ''alice''\<rparr>]"
    "list_image_documents demo_replies = Inr [\<lparr>dollar_id = ''img0''\<rparr>, \<lparr>dollar_id = ''img1''\<rparr>]"
    by (simp_all add: demo_replies_def first_prediction_over_50_def)
  show ?thesis
    using h uploaders_flag_targets[OF h, of demo_config "''alice''"]
    by (simp add: demo_config_def)
qed

subsection \<open>C4: errors of the external calls\<close>

text \<open>
  Claim C4 says that \<^verbatim>\<open>handleSubmit\<close> never throws. In the run below the upload is
  rejected: \<^verbatim>\<open>uploadFile\<close> toasts the error and throws it again, and the submission ends with
  it, before any post is created.
\<close>

theorem handleSubmit_rethrows_upload_error:
  "handleSubmit demo_config (demo_replies\<lparr>storage_createFile := Inl (Error ''Storage is full'')\<rparr>)
     demo_user None Create (demo_values\<lparr>files := [''a.png'']\<rparr>) =
   (Inl (Error ''Storage is full''),
    [Call (TextCheck ''https://api.sightengine.com/1.0/text/check.json''
       [(''text'', ''buy weed''), (''lang'', ''en''), (''categories'', ''drug''),
        (''mode'', ''rules''), (''api_user'', ''se-user''), (''api_secret'', ''se-secret'')]),
     Call (DbUpdateDocument ''db'' ''Users'' ''alice'' True),
     Call (StorageCreateFile ''media'' ''unique()'' (Some ''a.png'')),
     Rejected (Error ''Storage is full''),
     Toast ''File upload failed.'' (Some ''Storage is full'')])"
  by (simp add: demo_defs handleSubmit_def checkForProhibitedContent_def updateUserFlag_def
        uploadFile_def errorMessage_def TEXT_CHECK_URL_def)

text \<open>
  Claim C4, amended. Both versions of \<^verbatim>\<open>onDrop\<close> return normally whatever the external calls
  do (they throw only what the local helper \<^verbatim>\<open>convertFileToUrl\<close> throws, before the
  \<^verbatim>\<open>try\<close> block), and every rejection of an external call in them is written to the console.
  In \<^verbatim>\<open>handleSubmit\<close> a rejection of the moderation call, of the flag update or of the upload
  is shown in a toast; the rejection of \<^verbatim>\<open>createPost\<close> or \<^verbatim>\<open>updatePost\<close> is not caught.
  \<^verbatim>\<open>handleSubmit\<close> throws exactly when the upload is rejected (after its toast) or the
  mutation is.
\<close>

theorem errors_reported_or_rethrown:
  "fst (onDrop cfg rp uid fs) =
     (case convertFileToUrl rp (first fs) of Inl e \<Rightarrow> Inl e | Inr _ \<Rightarrow> Inr ()) \<and>
   fst (onDrop_part_000 cfg rp fs) =
     (case convertFileToUrl rp (first fs) of Inl e \<Rightarrow> Inl e | Inr _ \<Rightarrow> Inr ()) \<and>
   (\<forall>e. Rejected e \<in> set (snd (onDrop cfg rp uid fs)) \<longrightarrow>
      logged (snd (onDrop cfg rp uid fs)) e) \<and>
   (\<forall>e. Rejected e \<in> set (snd (onDrop_part_000 cfg rp fs)) \<longrightarrow>
      logged (snd (onDrop_part_000 cfg rp fs)) e) \<and>
   (\<forall>e. Rejected e \<in> set (snd (handleSubmit cfg rp user post act v)) \<longrightarrow>
      toasted (snd (handleSubmit cfg rp user post act v)) e \<or>
      fst (handleSubmit cfg rp user post act v) = Inl e \<and> mutation_reply rp post act = Inl e) \<and>
   fst (handleSubmit cfg rp user post act v) =
     (if files v \<noteq> [] \<and> isl (storage_createFile rp) then Inl (projl (storage_createFile rp))
      else case mutation_reply rp post act of Inl e \<Rightarrow> Inl e | Inr _ \<Rightarrow> Inr ())"
  using onDrop_result[of cfg rp uid fs] onDrop_part_000_result[of cfg rp fs]
    onDrop_rejected[of _ cfg rp uid fs] onDrop_part_000_rejected[of _ cfg rp fs]
    handleSubmit_rejected[of _ cfg rp user post act v]
    handleSubmit_result[of cfg rp user post act v]
  by blast

theorem errors_reported_or_rethrown_witness:
  "Rejected (Error ''Document not found'')
     \<in> set (snd (onDrop demo_config
          (demo_replies\<lparr>update_user_document := Inl (Error ''Document not found'')\<rparr>)
          ''alice'' [''a.png''])) \<and>
   logged (snd (onDrop demo_config
          (demo_replies\<lparr>update_user_document := Inl (Error ''Document not found'')\<rparr>)
          ''alice'' [''a.png''])) (Error ''Document not found'') \<and>
   fst (onDrop demo_config
          (demo_replies\<lparr>update_user_document := Inl (Error ''Document not found'')\<rparr>)
          ''alice'' [''a.png'']) = Inr () \<and>
   Rejected (Error ''Network Error'')
     \<in> set (snd (onDrop_part_000 demo_config
          (demo_replies\<lparr>axios_post_ml := Inl (Error ''Network Error'')\<rparr>) [''a.png''])) \<and>
   logged (snd (onDrop_part_000 demo_config
          (demo_replies\<lparr>axios_post_ml := Inl (Error ''Network Error'')\<rparr>) [''a.png'']))
     (Error ''Network Error'') \<and>
   Rejected (Error ''Storage is full'')
     \<in> set (snd (handleSubmit demo_config
          (demo_replies\<lparr>storage_createFile := Inl (Error ''Storage is full'')\<rparr>)
          demo_user None Create (demo_values\<lparr>files := [''a.png'']\<rparr>))) \<and>
   (toasted (snd (handleSubmit demo_config
          (demo_replies\<lparr>storage_createFile := Inl (Error ''Storage is full'')\<rparr>)
          demo_user None Create (demo_values\<lparr>files := [''a.png'']\<rparr>))) (Error ''Storage is full'') \<or>
    fst (handleSubmit demo_config
          (demo_replies\<lparr>storage_createFile := Inl (Error ''Storage is full'')\<rparr>)
          demo_user None Create (demo_values\<lparr>files := [''a.png'']\<rparr>)) = Inl (Error ''Storage is full'') \<and>
    mutation_reply (demo_replies\<lparr>storage_createFile := Inl (Error ''Storage is full'')\<rparr>)
      None Create = Inl (Error ''Storage is full'')) \<and>
   fst (handleSubmit demo_config
          (demo_replies\<lparr>storage_createFile := Inl (Error ''Storage is full'')\<rparr>)
          demo_user None Create (demo_values\<lparr>files := [''a.png'']\<rparr>)) = Inl (Error ''Storage is full'')"
proof -
  let ?r1 = "demo_replies\<lparr>update_user_document := Inl (Error ''Document not found'')\<rparr>"
  let ?r2 = "demo_replies\<lparr>axios_post_ml := Inl (Error ''Network Error'')\<rparr>"
  let ?r3 = "demo_replies\<lparr>storage_createFile := Inl (Error ''Storage is full'')\<rparr>"
  let ?v = "demo_values\<lparr>files := [''a.png'']\<rparr>"
  have 1: "Rejected (Error ''Document not found'')
     \<in> set (snd (onDrop demo_config ?r1 ''alice'' [''a.png'']))"
    by (simp add: demo_replies_def uploader_defs Let_def)
  have 2: "Rejected (Error ''Network Error'')
     \<in> set (snd (onDrop_part_000 demo_config ?r2 [''a.png'']))"
    by (simp add: demo_replies_def uploader_defs Let_def)
  have 3: "Rejected (Error ''Storage is full'')
     \<in> set (snd (handleSubmit demo_config ?r3 demo_user None Create ?v))"
    by (simp add: demo_replies_def demo_values_def handleSubmit_def checkForProhibitedContent_def
          updateUserFlag_def uploadFile_def)
  note c = errors_reported_or_rethrown[where cfg = demo_config and uid = "''alice''" and fs = "[''a.png'']"
      and user = demo_user and post = None and act = Create and v = ?v]
  have a: "logged (snd (onDrop demo_config ?r1 ''alice'' [''a.png''])) (Error ''Document not found'')"
    using c[where rp = ?r1] 1 by blast
  have b: "fst (onDrop demo_config ?r1 ''alice'' [''a.png'']) = Inr ()"
    using c[where rp = ?r1] by (simp add: demo_replies_def)
  have d: "logged (snd (onDrop_part_000 demo_config ?r2 [''a.png''])) (Error ''Network Error'')"
    using c[where rp = ?r2] 2 by blast
  have e: "toasted (snd (handleSubmit demo_config ?r3 demo_user None Create ?v))
             (Error ''Storage is full'') \<or>
           fst (handleSubmit demo_config ?r3 demo_user None Create ?v) = Inl (Error ''Storage is full'') \<and>
           mutation_reply ?r3 None Create = Inl (Error ''Storage is full'')"
    using c[where rp = ?r3] 3 by blast
  have f: "fst (handleSubmit demo_config ?r3 demo_user None Create ?v) = Inl (Error ''Storage is full'')"
    using c[where rp = ?r3] by (simp add: demo_replies_def demo_values_def)
  from 1 a b 2 d 3 e f show ?thesis by blast
qed

subsection \<open>C5: a failing moderation call\<close>

text \<open>
  Claim C5. If the request to the text-moderation service throws,
  \<^verbatim>\<open>checkForProhibitedContent\<close> returns \<^verbatim>\<open>false\<close>, and \<^verbatim>\<open>handleSubmit\<close> sends no update of
  the user's flag.
\<close>

theorem moderation_failure_assumes_false:
  "axios_post_text rp = Inl e \<Longrightarrow>
     \<not> fst (checkForProhibitedContent cfg rp c) \<and>
     flag_updates (snd (handleSubmit cfg rp user post act v)) = []"
  by (simp add: check_result handleSubmit_calls check_calls flag_updates_def
        split: option.splits action.splits)

theorem moderation_failure_assumes_false_witness:
  "axios_post_text (demo_replies\<lparr>axios_post_text := Inl (Error ''Network Error'')\<rparr>)
     = Inl (Error ''Network Error'') \<and>
   \<not> fst (checkForProhibitedContent demo_config
          (demo_replies\<lparr>axios_post_text := Inl (Error ''Network Error'')\<rparr>) ''buy weed'') \<and>
   flag_updates (snd (handleSubmit demo_config
          (demo_replies\<lparr>axios_post_text := Inl (Error ''Network Error'')\<rparr>)
          demo_user None Create demo_values)) = []"
  using moderation_failure_assumes_false[of "demo_replies\<lparr>axios_post_text := Inl (Error ''Network Error'')\<rparr>"
      "Error ''Network Error''" demo_config "''buy weed''" demo_user None Create demo_values]
  by (simp add: demo_replies_def)

subsection \<open>C6: the image document created by a drop\<close>

text \<open>
  Claim C6. Every image document that \<^verbatim>\<open>onDrop\<close> of \<^verbatim>\<open>FileUploader.tsx\<close> creates has
  \<^verbatim>\<open>imageId\<close> equal to the id of the stored file, \<^verbatim>\<open>imageUrl\<close> equal to the view URL
  built from that id, \<^verbatim>\<open>flag\<close> false, \<^verbatim>\<open>creator\<close> equal to the uploading user's id, and an
  empty caption, empty likes and empty tags. Such a document is created, once, whenever the
  preview URL and the upload succeed.
\<close>

theorem onDrop_image_document_fields:
  "(\<forall>db coll did d.
      DbCreateDocument db coll did d \<in> set (calls (snd (onDrop cfg rp uid fs))) \<longrightarrow>
      (\<exists>created. storage_createFile rp = Inr created \<and>
         d = \<lparr>imageId = dollar_id created,
              imageUrl = VITE_APPWRITE_URL cfg @ ''/storage/buckets/'' @
                VITE_APPWRITE_STORAGE_ID cfg @ ''/files/'' @ dollar_id created @
                ''/view?project='' @ VITE_APPWRITE_PROJECT_ID cfg,
              flag = False, creator = uid, image_caption = [], likes = [], image_tags = []\<rparr>)) \<and>
   (\<not> isl (convertFileToUrl rp (first fs)) \<and> \<not> isl (storage_createFile rp) \<longrightarrow>
      (\<exists>db coll did d.
         filter is_create_document (calls (snd (onDrop cfg rp uid fs))) =
           [DbCreateDocument db coll did d]))"
proof (intro conjI allI impI)
  fix db coll did d
  assume "DbCreateDocument db coll did d \<in> set (calls (snd (onDrop cfg rp uid fs)))"
  then have "DbCreateDocument db coll did d
      \<in> set (filter is_create_document (calls (snd (onDrop cfg rp uid fs))))"
    by simp
  then show "\<exists>created. storage_createFile rp = Inr created \<and>
         d = \<lparr>imageId = dollar_id created,
              imageUrl = VITE_APPWRITE_URL cfg @ ''/storage/buckets/'' @
                VITE_APPWRITE_STORAGE_ID cfg @ ''/files/'' @ dollar_id created @
                ''/view?project='' @ VITE_APPWRITE_PROJECT_ID cfg,
              flag = False, creator = uid, image_caption = [], likes = [], image_tags = []\<rparr>"
    unfolding creates_onDrop
    by (cases "storage_createFile rp") (simp_all add: fileUrl_def split: if_splits)
next
  assume "\<not> isl (convertFileToUrl rp (first fs)) \<and> \<not> isl (storage_createFile rp)"
  then show "\<exists>db coll did d.
         filter is_create_document (calls (snd (onDrop cfg rp uid fs))) =
           [DbCreateDocument db coll did d]"
    by (simp add: creates_onDrop)
qed

theorem onDrop_image_document_fields_witness:
  "DbCreateDocument ''db'' ''posts'' ''u2''
      \<lparr>imageId = ''file1'',
       imageUrl = ''https://aw.example/v1/storage/buckets/media/files/file1/view?project=proj'',
       flag = False, creator = ''alice'', image_caption = [], likes = [], image_tags = []\<rparr>
     \<in> set (calls (snd (onDrop demo_config demo_replies ''alice'' [''a.png'']))) \<and>
   (\<exists>created. storage_createFile demo_replies = Inr created \<and>
      \<lparr>imageId = ''file1'',
       imageUrl = ''https://aw.example/v1/storage/buckets/media/files/file1/view?project=proj'',
       flag = False, creator = ''alice'', image_caption = [], likes = [], image_tags = []\<rparr> =
      \<lparr>imageId = dollar_id created,
       imageUrl = VITE_APPWRITE_URL demo_config @ ''/storage/buckets/'' @
         VITE_APPWRITE_STORAGE_ID demo_config @ ''/files/'' @ dollar_id created @
         ''/view?project='' @ VITE_APPWRITE_PROJECT_ID demo_config,
       flag = False, creator = ''alice'', image_caption = [], likes = [], image_tags = []\<rparr>) \<and>
   \<not> isl (convertFileToUrl demo_replies (first [''a.png''])) \<and>
   \<not> isl (storage_createFile demo_replies) \<and>
   (\<exists>db coll did d.
      filter is_create_document
        (calls (snd (onDrop demo_config demo_replies ''alice'' [''a.png'']))) =
      [DbCreateDocument db coll did d])"
proof -
  have h: "\<not> isl (convertFileToUrl demo_replies (first [''a.png'']))
             \<and> \<not> isl (storage_createFile demo_replies)"
    by (simp add: demo_replies_def)
  have "DbCreateDocument ''db'' ''posts'' ''u2''
      \<lparr>imageId = ''file1'',
       imageUrl = ''https://aw.example/v1/storage/buckets/media/files/file1/view?project=proj'',
       flag = False, creator = ''alice'', image_caption = [], likes = [], image_tags = []\<rparr>
     \<in> set (filter is_create_document
          (calls (snd (onDrop demo_config demo_replies ''alice'' [''a.png'']))))"
    unfolding creates_onDrop by (simp add: demo_replies_def demo_config_def fileUrl_def)
  then have m: "DbCreateDocument ''db'' ''posts'' ''u2''
      \<lparr>imageId = ''file1'',
       imageUrl = ''https://aw.example/v1/storage/buckets/media/files/file1/view?project=proj'',
       flag = False, creator = ''alice'', image_caption = [], likes = [], image_tags = []\<rparr>
     \<in> set (calls (snd (onDrop demo_config demo_replies ''alice'' [''a.png''])))"
    by simp
  note c = onDrop_image_document_fields[of demo_config demo_replies "''alice''" "[''a.png'']"]
  from c[THEN conjunct1, rule_format, OF m] c[THEN conjunct2, rule_format, OF h] m h
  show ?thesis by (intro conjI) simp_all
qed

subsection \<open>C7: the moderation request and its verdict\<close>

text \<open>
  Claim C7. \<^verbatim>\<open>checkForProhibitedContent\<close> sends one request, to the text-moderation endpoint,
  with the caption as \<^verbatim>\<open>text\<close>, \<^verbatim>\<open>lang=en\<close>, \<^verbatim>\<open>categories=drug\<close> and \<^verbatim>\<open>mode=rules\<close>
  (followed by the two credentials), and returns \<^verbatim>\<open>true\<close> if and only if the response's
  \<^verbatim>\<open>drug.matches\<close> contains a match whose type is \<^verbatim>\<open>"drug"\<close>.
\<close>

theorem checkForProhibitedContent_request_and_verdict:
  "calls (snd (checkForProhibitedContent cfg rp c)) =
     [TextCheck ''https://api.sightengine.com/1.0/text/check.json''
        [(''text'', c), (''lang'', ''en''), (''categories'', ''drug''), (''mode'', ''rules''),
         (''api_user'', VITE_SIGHTENGINE_USER cfg), (''api_secret'', VITE_SIGHTENGINE_SECRET cfg)]] \<and>
   (fst (checkForProhibitedContent cfg rp c) \<longleftrightarrow>
     (\<exists>d ms. axios_post_text rp = Inr d \<and> drug_matches d = Some ms \<and>
        (\<exists>m \<in> set ms. match_type m = ''drug'')))"
  using check_calls[of cfg rp c] check_result[of cfg rp c] by (simp add: TEXT_CHECK_URL_def)

theorem checkForProhibitedContent_request_and_verdict_witness:
  "calls (snd (checkForProhibitedContent demo_config demo_replies ''buy weed'')) =
     [TextCheck ''https://api.sightengine.com/1.0/text/check.json''
        [(''text'', ''buy weed''), (''lang'', ''en''), (''categories'', ''drug''),
         (''mode'', ''rules''), (''api_user'', ''se-user''), (''api_secret'', ''se-secret'')]] \<and>
   fst (checkForProhibitedContent demo_config demo_replies ''buy weed'') \<and>
   \<not> fst (checkForProhibitedContent demo_config
          (demo_replies\<lparr>axios_post_text := Inr \<lparr>status = ''success'', drug_matches = Some
             [\<lparr>match_type = ''profanity'', match_match = ''damn'', match_start = 0,
               match_end = 4\<rparr>]\<rparr>\<rparr>) ''damn'')"
  using checkForProhibitedContent_request_and_verdict[of demo_config demo_replies "''buy weed''"]
    checkForProhibitedContent_request_and_verdict[of demo_config "demo_replies\<lparr>axios_post_text := Inr \<lparr>status = ''success'', drug_matches = Some
             [\<lparr>match_type = ''profanity'', match_match = ''damn'', match_start = 0,
               match_end = 4\<rparr>]\<rparr>\<rparr>" "''damn''"]
  by (simp add: demo_defs)

subsection \<open>C8: the order of the calls of a submission\<close>

text \<open>
  Claim C8. The external calls of one submission are strictly sequential, in this order:
  the moderation check; the update of the user's flag, only if the caption is flagged; the
  file upload, only if a file is selected; the creation or update of the post, which is
  missing only when the upload throws. No call is started before the one before it has
  completed: the effects of a submission are, exactly, each request followed by what
  settles it (its rejection and the toast of its \<^verbatim>\<open>catch\<close> block, or nothing when it
  answers), and only then the next request; after the last request come its rejection, or
  the failure toast and the navigation. In particular the requests alone are in the order
  stated.
\<close>

theorem handleSubmit_call_order:
  "(\<exists>m settled.
      snd (handleSubmit cfg rp user post act v) =
        Call (TextCheck ''https://api.sightengine.com/1.0/text/check.json''
          [(''text'', caption v), (''lang'', ''en''), (''categories'', ''drug''),
           (''mode'', ''rules''), (''api_user'', VITE_SIGHTENGINE_USER cfg),
           (''api_secret'', VITE_SIGHTENGINE_SECRET cfg)]) #
        (case axios_post_text rp of
           Inl e \<Rightarrow> [Rejected e,
                     Toast ''Content check failed'' (Some (errorMessage e ''Unknown error''))]
         | Inr d \<Rightarrow>
             (case drug_matches d of
                None \<Rightarrow> [Toast ''Content check failed''
                           (Some (errorMessage TypeError_matches ''Unknown error''))]
              | Some _ \<Rightarrow> []))
        @ (if fst (checkForProhibitedContent cfg rp (caption v))
           then Call (DbUpdateDocument (VITE_APPWRITE_DB_ID cfg) ''Users''
                        (user_dollar_id user) True) #
                (case update_user_document rp of
                   Inl e \<Rightarrow> [Rejected e, Toast ''User flag update failed''
                                            (Some (errorMessage e ''Unknown error''))]
                 | Inr _ \<Rightarrow> [])
           else [])
        @ (if files v \<noteq> []
           then Call (StorageCreateFile (VITE_APPWRITE_STORAGE_ID cfg) ''unique()''
                        (Some (hd (files v)))) #
                (case storage_createFile rp of
                   Inl e \<Rightarrow> [Rejected e, Toast ''File upload failed.''
                                            (Some (errorMessage e ''File upload failed.''))]
                 | Inr _ \<Rightarrow> [])
           else [])
        @ (if files v \<noteq> [] \<and> isl (storage_createFile rp) then []
           else Call m # settled) \<and>
      is_post_mutation m \<and> calls settled = [] \<and>
      settled =
        (case mutation_reply rp post act of
           Inl e \<Rightarrow> [Rejected e]
         | Inr answer \<Rightarrow>
             (if answer = None
              then [Toast (action_name act @ '' post failed. Please try again.'') None]
              else []) @
             [Navigate (case (post, act) of
                          (Some p, Update) \<Rightarrow> ''/posts/'' @ dollar_id p
                        | _ \<Rightarrow> ''/'')])) \<and>
   (\<exists>ms. calls (snd (handleSubmit cfg rp user post act v)) =
      [TextCheck ''https://api.sightengine.com/1.0/text/check.json''
        [(''text'', caption v), (''lang'', ''en''), (''categories'', ''drug''), (''mode'', ''rules''),
         (''api_user'', VITE_SIGHTENGINE_USER cfg), (''api_secret'', VITE_SIGHTENGINE_SECRET cfg)]]
      @ (if fst (checkForProhibitedContent cfg rp (caption v))
         then [DbUpdateDocument (VITE_APPWRITE_DB_ID cfg) ''Users'' (user_dollar_id user) True] else [])
      @ (if files v \<noteq> []
         then [StorageCreateFile (VITE_APPWRITE_STORAGE_ID cfg) ''unique()'' (Some (hd (files v)))] else [])
      @ ms \<and>
      (if files v \<noteq> [] \<and> isl (storage_createFile rp) then ms = []
       else (\<exists>m. ms = [m] \<and> is_post_mutation m)))"
proof (intro conjI)
  let ?settled = "case mutation_reply rp post act of
           Inl e \<Rightarrow> [Rejected e]
         | Inr answer \<Rightarrow>
             (if answer = None
              then [Toast (action_name act @ '' post failed. Please try again.'') None]
              else []) @
             [Navigate (case (post, act) of
                          (Some p, Update) \<Rightarrow> ''/posts/'' @ dollar_id p
                        | _ \<Rightarrow> ''/'')]"
  let ?m = "case (post, act) of
                 (Some p, Update) \<Rightarrow>
                   UpdatePost (post_values.extend v (IUpdatePost.fields (dollar_id p)
                     (or_else (if files v = [] then None
                               else Some (dollar_id (projr (storage_createFile rp))))
                        (post_imageId p))
                     (post_imageUrl p)))
               | _ \<Rightarrow>
                   CreatePost (post_values.extend v (INewPost.fields (user_dollar_id user)
                     (if files v = [] then None
                      else Some (dollar_id (projr (storage_createFile rp))))))"
  have s: "calls ?settled = []"
    by (cases "mutation_reply rp post act") (simp_all add: calls_append)
  have m: "is_post_mutation ?m"
    by (cases post; cases act) simp_all
  show "\<exists>m settled.
      snd (handleSubmit cfg rp user post act v) =
        Call (TextCheck ''https://api.sightengine.com/1.0/text/check.json''
          [(''text'', caption v), (''lang'', ''en''), (''categories'', ''drug''),
           (''mode'', ''rules''), (''api_user'', VITE_SIGHTENGINE_USER cfg),
           (''api_secret'', VITE_SIGHTENGINE_SECRET cfg)]) #
        (case axios_post_text rp of
           Inl e \<Rightarrow> [Rejected e,
                     Toast ''Content check failed'' (Some (errorMessage e ''Unknown error''))]
         | Inr d \<Rightarrow>
             (case drug_matches d of
                None \<Rightarrow> [Toast ''Content check failed''
                           (Some (errorMessage TypeError_matches ''Unknown error''))]
              | Some _ \<Rightarrow> []))
        @ (if fst (checkForProhibitedContent cfg rp (caption v))
           then Call (DbUpdateDocument (VITE_APPWRITE_DB_ID cfg) ''Users''
                        (user_dollar_id user) True) #
                (case update_user_document rp of
                   Inl e \<Rightarrow> [Rejected e, Toast ''User flag update failed''
                                            (Some (errorMessage e ''Unknown error''))]
                 | Inr _ \<Rightarrow> [])
           else [])
        @ (if files v \<noteq> []
           then Call (StorageCreateFile (VITE_APPWRITE_STORAGE_ID cfg) ''unique()''
                        (Some (hd (files v)))) #
                (case storage_createFile rp of
                   Inl e \<Rightarrow> [Rejected e, Toast ''File upload failed.''
                                            (Some (errorMessage e ''File upload failed.''))]
                 | Inr _ \<Rightarrow> [])
           else [])
        @ (if files v \<noteq> [] \<and> isl (storage_createFile rp) then []
           else Call m # settled) \<and>
      is_post_mutation m \<and> calls settled = [] \<and>
      settled =
        (case mutation_reply rp post act of
           Inl e \<Rightarrow> [Rejected e]
         | Inr answer \<Rightarrow>
             (if answer = None
              then [Toast (action_name act @ '' post failed. Please try again.'') None]
              else []) @
             [Navigate (case (post, act) of
                          (Some p, Update) \<Rightarrow> ''/posts/'' @ dollar_id p
                        | _ \<Rightarrow> ''/'')])"
    unfolding handleSubmit_steps[of cfg rp user post act v] check_effects updateUserFlag_effects
      uploadFile_effects
    by (rule exI[of _ ?m], rule exI[of _ ?settled]) (use s m in simp)
  show "\<exists>ms. calls (snd (handleSubmit cfg rp user post act v)) =
      [TextCheck ''https://api.sightengine.com/1.0/text/check.json''
        [(''text'', caption v), (''lang'', ''en''), (''categories'', ''drug''), (''mode'', ''rules''),
         (''api_user'', VITE_SIGHTENGINE_USER cfg), (''api_secret'', VITE_SIGHTENGINE_SECRET cfg)]]
      @ (if fst (checkForProhibitedContent cfg rp (caption v))
         then [DbUpdateDocument (VITE_APPWRITE_DB_ID cfg) ''Users'' (user_dollar_id user) True] else [])
      @ (if files v \<noteq> []
         then [StorageCreateFile (VITE_APPWRITE_STORAGE_ID cfg) ''unique()'' (Some (hd (files v)))] else [])
      @ ms \<and>
      (if files v \<noteq> [] \<and> isl (storage_createFile rp) then ms = []
       else (\<exists>m. ms = [m] \<and> is_post_mutation m))"
    by (simp add: handleSubmit_calls check_calls updateUserFlag_calls TEXT_CHECK_URL_def
        split: option.splits action.splits)
qed

text \<open>
  A submission with a file, where the update of the user's flag is rejected: the rejection
  and its toast stand between that request and the upload.
\<close>

theorem handleSubmit_call_order_witness:
  "snd (handleSubmit demo_config
          (demo_replies\<lparr>update_user_document := Inl (Error ''Document not found'')\<rparr>)
          demo_user (Some demo_post) Update (demo_values\<lparr>files := [''a.png'']\<rparr>)) =
     [Call (TextCheck ''https://api.sightengine.com/1.0/text/check.json''
        [(''text'', ''buy weed''), (''lang'', ''en''), (''categories'', ''drug''),
         (''mode'', ''rules''), (''api_user'', ''se-user''), (''api_secret'', ''se-secret'')]),
      Call (DbUpdateDocument ''db'' ''Users'' ''alice'' True),
      Rejected (Error ''Document not found''),
      Toast ''User flag update failed'' (Some ''Document not found''),
      Call (StorageCreateFile ''media'' ''unique()'' (Some ''a.png'')),
      Call (UpdatePost \<lparr>caption = ''buy weed'', files = [''a.png''], location = ''Pune'',
         tags = ''a,b'', postId = ''post1'', upd_imageId = ''file1'',
         upd_imageUrl = ''https://aw.example/v1/f/file0''\<rparr>),
      Navigate ''/posts/post1'']"
  using handleSubmit_call_order[of demo_config
          "demo_replies\<lparr>update_user_document := Inl (Error ''Document not found'')\<rparr>"
          demo_user "Some demo_post" Update "demo_values\<lparr>files := [''a.png'']\<rparr>"]
  by (simp add: demo_defs handleSubmit_def checkForProhibitedContent_def updateUserFlag_def
        uploadFile_def or_else_def errorMessage_def TEXT_CHECK_URL_def IUpdatePost.defs
        post_values.defs)

subsection \<open>C9: flags are never cleared\<close>

text \<open>
  Claim C9. Every update of a document sent by the two uploaders and by the form handler
  writes \<^verbatim>\<open>flag: true\<close>. The only request that carries \<^verbatim>\<open>flag: false\<close> is the creation of
  the image document in \<^verbatim>\<open>FileUploader.tsx\<close>, under an id fresh from \<^verbatim>\<open>ID.unique()\<close>; the
  other two handlers create no document.
\<close>

theorem flag_updates_write_true:
  "(\<forall>db coll d b.
      DbUpdateDocument db coll d b \<in> set (calls (snd (onDrop cfg rp uid fs))) \<longrightarrow> b) \<and>
   (\<forall>db coll d b.
      DbUpdateDocument db coll d b \<in> set (calls (snd (onDrop_part_000 cfg rp fs))) \<longrightarrow> b) \<and>
   (\<forall>db coll d b.
      DbUpdateDocument db coll d b \<in> set (calls (snd (handleSubmit cfg rp user post act v)))
        \<longrightarrow> b) \<and>
   (\<forall>db coll did x.
      DbCreateDocument db coll did x \<in> set (calls (snd (onDrop cfg rp uid fs))) \<longrightarrow>
        \<not> flag x \<and> did = ID_unique_document rp) \<and>
   filter is_create_document (calls (snd (onDrop_part_000 cfg rp fs))) = [] \<and>
   filter is_create_document (calls (snd (handleSubmit cfg rp user post act v))) = []"
proof (intro conjI allI impI)
  fix db coll d b
  assume "DbUpdateDocument db coll d b \<in> set (calls (snd (onDrop cfg rp uid fs)))"
  then show b
    unfolding in_flag_updates flag_updates_onDrop by (auto split: if_splits)
next
  fix db coll d b
  assume "DbUpdateDocument db coll d b \<in> set (calls (snd (onDrop_part_000 cfg rp fs)))"
  then have m: "DbUpdateDocument db coll d b \<in> set (flag_updates (snd (onDrop_part_000 cfg rp fs)))"
    unfolding in_flag_updates .
  show b
  proof (cases "list_user_documents rp")
    case (Inl e)
    with m show ?thesis
      unfolding flag_updates_onDrop_part_000 Inl sum.case by (auto split: if_splits)
  next
    case u: (Inr us)
    show ?thesis
    proof (cases "list_image_documents rp")
      case (Inl e)
      with m show ?thesis
        unfolding flag_updates_onDrop_part_000 u Inl sum.case by (auto split: if_splits)
    next
      case (Inr ims)
      with m show ?thesis
        unfolding flag_updates_onDrop_part_000 u Inr sum.case by (auto split: if_splits)
    qed
  qed
next
  fix db coll d b
  assume "DbUpdateDocument db coll d b
     \<in> set (calls (snd (handleSubmit cfg rp user post act v)))"
  then show b
    unfolding in_flag_updates flag_updates_handleSubmit by (auto split: if_splits)
next
  fix db coll did x
  assume "DbCreateDocument db coll did x \<in> set (calls (snd (onDrop cfg rp uid fs)))"
  then have "DbCreateDocument db coll did x
      \<in> set (filter is_create_document (calls (snd (onDrop cfg rp uid fs))))"
    by simp
  then show "\<not> flag x" and "did = ID_unique_document rp"
    unfolding creates_onDrop by (auto split: if_splits)
next
  show "filter is_create_document (calls (snd (onDrop_part_000 cfg rp fs))) = []"
    by (rule creates_onDrop_part_000)
next
  show "filter is_create_document (calls (snd (handleSubmit cfg rp user post act v))) = []"
    by (rule creates_handleSubmit)
qed

theorem flag_updates_write_true_witness:
  "DbUpdateDocument ''db'' ''users'' ''alice'' True
     \<in> set (calls (snd (onDrop demo_config demo_replies ''alice'' [''a.png'']))) \<and>
   DbUpdateDocument ''db'' ''users'' ''alice'' False
     \<notin> set (calls (snd (onDrop demo_config demo_replies ''alice'' [''a.png'']))) \<and>
   DbUpdateDocument ''db'' ''users'' ''bob'' True
     \<in> set (calls (snd (onDrop_part_000 demo_config demo_replies [''a.png'']))) \<and>
   DbUpdateDocument ''db'' ''users'' ''bob'' False
     \<notin> set (calls (snd (onDrop_part_000 demo_config demo_replies [''a.png'']))) \<and>
   DbUpdateDocument ''db'' ''Users'' ''alice'' True
     \<in> set (calls (snd (handleSubmit demo_config demo_replies demo_user None Create demo_values))) \<and>
   DbUpdateDocument ''db'' ''Users'' ''alice'' False
     \<notin> set (calls (snd (handleSubmit demo_config demo_replies demo_user None Create demo_values)))"
proof -
  have 1: "DbUpdateDocument ''db'' ''users'' ''alice'' True
     \<in> set (calls (snd (onDrop demo_config demo_replies ''alice'' [''a.png''])))"
    unfolding in_flag_updates flag_updates_onDrop
    by (simp add: demo_replies_def demo_config_def first_prediction_over_50_def)
  have 2: "DbUpdateDocument ''db'' ''users'' ''bob'' True
     \<in> set (calls (snd (onDrop_part_000 demo_config demo_replies [''a.png''])))"
    unfolding in_flag_updates flag_updates_onDrop_part_000
    by (simp add: demo_replies_def demo_config_def first_prediction_over_50_def)
  have 3: "DbUpdateDocument ''db'' ''Users'' ''alice'' True
     \<in> set (calls (snd (handleSubmit demo_config demo_replies demo_user None Create demo_values)))"
    unfolding in_flag_updates flag_updates_handleSubmit
    by (simp add: demo_defs check_result)
  show ?thesis
    using 1 2 3
      flag_updates_write_true[where cfg = demo_config and rp = demo_replies and uid = "''alice''"
          and fs = "[''a.png'']" and user = demo_user and post = None and act = Create
          and v = demo_values]
    by blast
qed

subsection \<open>C10: an update without a new file\<close>

text \<open>
  Claim C10. In an Update submission with no file selected, \<^verbatim>\<open>handleSubmit\<close> sends
  \<^verbatim>\<open>updatePost\<close> with the post's own \<^verbatim>\<open>imageId\<close> and \<^verbatim>\<open>imageUrl\<close>, and sends no other
  mutation of a post.
\<close>

theorem update_without_file_keeps_image:
  "post = Some p \<Longrightarrow> act = Update \<Longrightarrow> files v = [] \<Longrightarrow>
     UpdatePost (post_values.extend v
        (IUpdatePost.fields (dollar_id p) (post_imageId p) (post_imageUrl p)))
       \<in> set (calls (snd (handleSubmit cfg rp user post act v))) \<and>
     (\<forall>r \<in> set (calls (snd (handleSubmit cfg rp user post act v))). is_post_mutation r \<longrightarrow>
        (\<exists>u. r = UpdatePost u \<and> postId u = dollar_id p \<and>
             upd_imageId u = post_imageId p \<and> upd_imageUrl u = post_imageUrl p))"
  by (auto simp add: handleSubmit_calls check_calls updateUserFlag_calls or_else_def
        IUpdatePost.defs post_values.defs)

theorem update_without_file_keeps_image_witness:
  "Some demo_post = Some demo_post \<and> Update = Update \<and> files demo_values = [] \<and>
   UpdatePost \<lparr>caption = ''buy weed'', files = [], location = ''Pune'',
         tags = ''a,b'', postId = ''post1'', upd_imageId = ''file0'',
         upd_imageUrl = ''https://aw.example/v1/f/file0''\<rparr>
     \<in> set (calls (snd (handleSubmit demo_config demo_replies demo_user (Some demo_post) Update
            demo_values)))"
  using update_without_file_keeps_image[of "Some demo_post" demo_post Update demo_values demo_config demo_replies demo_user]
  by (simp add: demo_values_def demo_post_def IUpdatePost.defs post_values.defs)

end
